theory Spec2Isabelle
  imports Main "HOL-Library.Word"
begin

section \<open>The USP recognition-engine adapter (usp\_reco\_engine\_adapter.cpp)\<close>

text \<open>
  A shallow embedding of \<^verbatim>\<open>CSpxUspRecoEngineAdapter\<close>. The adapter object is a record,
  every member function is a function from the adapter to the adapter, and what the
  adapter does to its collaborators is written into two logs kept in the record: the calls
  made on the site (\<open>site_calls\<close>) and the calls made on the USP transport (\<open>usp_calls\<close>).
  The reader/writer lock is not modelled: each member function is read as one sequential
  run.
\<close>

subsection \<open>The two state axes\<close>

text \<open>
  Modelled from the spec: the enumerations \<^verbatim>\<open>AudioState\<close> and \<^verbatim>\<open>UspState\<close> are
  declared in usp\_reco\_engine\_adapter.h, which is not among the sources; their members are
  the ones section 3 of the specification lists (and the ones the .cpp file names).
\<close>

datatype AudioState =
  AudioState_Idle | AudioState_Ready | AudioState_Sending | AudioState_Stopping

datatype UspState =
  UspState_Error | UspState_Idle | UspState_WaitingForTurnStart | UspState_WaitingForPhrase
  | UspState_WaitingForIntent | UspState_WaitingForIntent2 | UspState_WaitingForTurnEnd
  | UspState_Terminating | UspState_Zombie


subsection \<open>What the site supplies\<close>

text \<open>
  The site is the host of the adapter. The adapter reads from it string and boolean named
  properties, the listen-for list and the intent triple. The global property names
  (\<^verbatim>\<open>g_SPEECH_Endpoint\<close> and the others) are declared outside this file; they are taken
  as the members of a datatype.
\<close>

datatype StringProperty =
  g_SPEECH_Endpoint | g_SPEECH_ModelId | g_SPEECH_RecoMode | g_SPEECH_RecoLanguage
  | g_SPEECH_SubscriptionKey | g_SPEECH_AuthToken | g_SPEECH_RpsToken
  | g_TRANSLATION_FromLanguage | g_TRANSLATION_ToLanguages | g_TRANSLATION_Voice

datatype BooleanProperty =
  CARBON_INTERNAL_USP_NoDGI | CARBON_INTERNAL_USP_NoIntentJson
  | CARBON_INTERNAL_USP_ResetAfterError

record Site =
  string_values :: "StringProperty \<rightharpoonup> string"
  boolean_values :: "BooleanProperty \<rightharpoonup> bool"
  ListenForList :: "string list"
  IntentInfo :: "string \<times> string \<times> string"

definition HasStringValue :: "Site \<Rightarrow> StringProperty \<Rightarrow> bool" where
  "HasStringValue site name = (string_values site name \<noteq> None)"

definition GetStringValue :: "Site \<Rightarrow> StringProperty \<Rightarrow> string" where
  "GetStringValue site name = (case string_values site name of None \<Rightarrow> [] | Some v \<Rightarrow> v)"

definition GetBooleanValue :: "Site \<Rightarrow> BooleanProperty \<Rightarrow> bool \<Rightarrow> bool" where
  "GetBooleanValue site name dflt =
     (case boolean_values site name of None \<Rightarrow> dflt | Some v \<Rightarrow> v)"

subsection \<open>Messages of the service, results, and the two call logs\<close>

type_synonym byte = "8 word"

datatype RecognitionStatus = RecognitionStatus_Success | RecognitionStatus_Other nat

datatype TranslationStatus =
  TranslationStatus_Success | TranslationStatus_Error | TranslationStatus_Other nat

datatype SynthesisStatus =
  SynthesisStatus_Success | SynthesisStatus_Error | SynthesisStatus_Other nat

record SpeechHypothesisMsg =
  hypothesis_json :: string
  hypothesis_offset :: nat
  hypothesis_duration :: nat
  hypothesis_text :: string

record SpeechPhraseMsg =
  phrase_json :: string
  phrase_offset :: nat
  phrase_duration :: nat
  recognitionStatus :: RecognitionStatus
  displayText :: string

record TranslationResult =
  translationStatus :: TranslationStatus
  translation_texts :: "(string \<times> string) list"
  failureReason :: string

record TranslationHypothesisMsg =
  tr_hypothesis_json :: string
  tr_hypothesis_offset :: nat
  tr_hypothesis_duration :: nat
  tr_hypothesis_text :: string
  tr_hypothesis_translation :: TranslationResult

record TranslationPhraseMsg =
  tr_phrase_json :: string
  tr_phrase_offset :: nat
  tr_phrase_duration :: nat
  tr_phrase_text :: string
  tr_phrase_recognitionStatus :: RecognitionStatus
  tr_phrase_translation :: TranslationResult

text \<open>
  \<^verbatim>\<open>USP::SpeechPhraseMsg()\<close>, the value-initialised message that
  \<^verbatim>\<open>FireFinalResultLater_WaitingForIntentComplete\<close> puts back into the slot: empty
  strings and zero numbers. The type is declared outside this file; the recognition status
  of the empty message is never read by the adapter.
\<close>

definition SpeechPhraseMsg_empty :: SpeechPhraseMsg where
  "SpeechPhraseMsg_empty =
     \<lparr>phrase_json = [], phrase_offset = 0, phrase_duration = 0,
      recognitionStatus = RecognitionStatus_Success, displayText = []\<rparr>"

datatype ResultType = ResultType_Speech | ResultType_TranslationText | ResultType_TranslationSynthesis

datatype TranslationTextStatus = TranslationTextStatus_Success | TranslationTextStatus_Error

datatype TranslationSynthesisStatus =
  TranslationSynthesisStatus_Success | TranslationSynthesisStatus_SynthesisEnd
  | TranslationSynthesisStatus_Error

text \<open>
  A result object as the adapter leaves it: how the factory was asked to create it
  (intermediate or final, text, type), the named properties the adapter set on it, and the
  translation initialisers it called.
\<close>

record RecoResult =
  result_final :: bool
  result_text :: string
  result_type :: ResultType
  RESULT_Json :: "string option"
  RESULT_LanguageUnderstandingJson :: "string option"
  TranslationTextResult :: "(TranslationTextStatus \<times> (string \<times> string) list \<times> string) option"
  TranslationSynthesisResult :: "(TranslationSynthesisStatus \<times> byte list \<times> string) option"

definition CreateIntermediateResult :: "string \<Rightarrow> ResultType \<Rightarrow> RecoResult" where
  "CreateIntermediateResult text ty =
     \<lparr>result_final = False, result_text = text, result_type = ty, RESULT_Json = None,
      RESULT_LanguageUnderstandingJson = None, TranslationTextResult = None,
      TranslationSynthesisResult = None\<rparr>"

definition CreateFinalResult :: "string \<Rightarrow> ResultType \<Rightarrow> RecoResult" where
  "CreateFinalResult text ty =
     \<lparr>result_final = True, result_text = text, result_type = ty, RESULT_Json = None,
      RESULT_LanguageUnderstandingJson = None, TranslationTextResult = None,
      TranslationSynthesisResult = None\<rparr>"

datatype SiteCall =
  AdapterCompletedSetFormatStop
  | AdapterStartingTurn
  | AdapterStartedTurn string
  | AdapterDetectedSpeechStart nat
  | AdapterDetectedSpeechEnd nat
  | AdapterRequestingAudioIdle
  | AdapterStoppedTurn
  | FireAdapterResult_Intermediate nat RecoResult
  | FireAdapterResult_FinalResult nat RecoResult
  | FireAdapterResult_TranslationSynthesis RecoResult
  | Site_Error string

subsection \<open>The USP client and session\<close>

datatype EndpointType =
  EndpointType_BingSpeech | EndpointType_CDSDK | EndpointType_Translation | EndpointType_Cris

datatype RecognitionMode =
  RecognitionMode_Interactive | RecognitionMode_Conversation | RecognitionMode_Dictation

datatype AuthenticationType =
  AuthenticationType_SubscriptionKey | AuthenticationType_AuthorizationToken
  | AuthenticationType_SearchDelegationRPSToken

text \<open>
  \<^verbatim>\<open>USP::Client\<close> is a builder declared outside this file; the record keeps what each
  setter the adapter calls was given.
\<close>

record Client =
  client_EndpointType :: EndpointType
  client_EndpointUrl :: "string option"
  client_Language :: "string option"
  client_ModelId :: "string option"
  client_TranslationSourceLanguage :: "string option"
  client_TranslationTargetLanguages :: "string option"
  client_TranslationVoice :: "string option"
  client_RecognitionMode :: "RecognitionMode option"
  client_Authentication :: "(AuthenticationType \<times> string) option"

definition new_Client :: "EndpointType \<Rightarrow> Client" where
  "new_Client ty =
     \<lparr>client_EndpointType = ty, client_EndpointUrl = None, client_Language = None,
      client_ModelId = None, client_TranslationSourceLanguage = None,
      client_TranslationTargetLanguages = None, client_TranslationVoice = None,
      client_RecognitionMode = None, client_Authentication = None\<rparr>"

datatype UspCall =
  Connect Client
  | SendMessage string string
  | WriteAudio "byte list"
  | FlushAudio
  | DestroyConnection

datatype SPXHR =
  SPX_NOERROR | SPXERR_UNINITIALIZED | SPXERR_ALREADY_INITIALIZED
  | SPXERR_UNEXPECTED_USP_SITE_FAILURE | SPXERR_INVALID_ARG | SPXERR_RUNTIME_ERROR
  | SPXERR_NOT_FOUND

definition SPX_FAILED :: "SPXHR \<Rightarrow> bool" where
  "SPX_FAILED hr = (hr \<noteq> SPX_NOERROR)"

subsection \<open>The format descriptor\<close>

text \<open>
  \<^verbatim>\<open>WAVEFORMATEX\<close> with the \<open>cbSize\<close> bytes that follow it in memory
  (\<open>extra_bytes\<close>). A well-formed descriptor has \<open>length (extra_bytes f) = unat (cbSize f)\<close>.
\<close>

record WAVEFORMATEX =
  wFormatTag :: "16 word"
  nChannels :: "16 word"
  nSamplesPerSec :: "32 word"
  nAvgBytesPerSec :: "32 word"
  nBlockAlign :: "16 word"
  wBitsPerSample :: "16 word"
  cbSize :: "16 word"
  extra_bytes :: "byte list"

subsection \<open>The adapter object\<close>

record Adapter =
  site :: Site
  m_audioState :: AudioState
  m_uspState :: UspState
  m_singleShot :: bool
  m_recoMode :: RecognitionMode
  m_customEndpoint :: bool
  m_handle :: "Client option"
  m_format :: "WAVEFORMATEX option"
  m_expectIntentResponse :: bool
  m_finalResultMessageToFireLater :: SpeechPhraseMsg
  m_fUseBufferedImplementation :: bool
  m_servicePreferedMilliseconds :: nat
  m_servicePreferedBufferSizeSendingNow :: nat
  m_buffer :: "byte list option"
  m_bytesInBuffer :: nat
  m_ptrIntoBuffer :: "nat option"
  m_bytesLeftInBuffer :: nat
  site_calls :: "SiteCall list"
  usp_calls :: "UspCall list"

text \<open>
  The constructor. \<^verbatim>\<open>m_fUseBufferedImplementation\<close> and
  \<^verbatim>\<open>m_servicePreferedMilliseconds\<close> are initialised in the header, which is not among
  the sources: they are parameters here, as are the site and the members the constructor
  leaves to their default initialisers.
\<close>

definition CSpxUspRecoEngineAdapter :: "Site \<Rightarrow> bool \<Rightarrow> nat \<Rightarrow> bool \<Rightarrow> RecognitionMode \<Rightarrow> Adapter" where
  "CSpxUspRecoEngineAdapter st buffered ms singleShot mode =
     \<lparr>site = st, m_audioState = AudioState_Idle, m_uspState = UspState_Idle,
      m_singleShot = singleShot, m_recoMode = mode, m_customEndpoint = False,
      m_handle = None, m_format = None, m_expectIntentResponse = False,
      m_finalResultMessageToFireLater = SpeechPhraseMsg_empty,
      m_fUseBufferedImplementation = buffered, m_servicePreferedMilliseconds = ms,
      m_servicePreferedBufferSizeSendingNow = 0, m_buffer = None, m_bytesInBuffer = 0,
      m_ptrIntoBuffer = None, m_bytesLeftInBuffer = 0, site_calls = [], usp_calls = []\<rparr>"

definition call_site :: "SiteCall \<Rightarrow> Adapter \<Rightarrow> Adapter" where
  "call_site c a = a\<lparr>site_calls := site_calls a @ [c]\<rparr>"

definition call_usp :: "UspCall \<Rightarrow> Adapter \<Rightarrow> Adapter" where
  "call_usp c a = a\<lparr>usp_calls := usp_calls a @ [c]\<rparr>"

subsection \<open>The state machine: \<^verbatim>\<open>ChangeState\<close>\<close>

definition ChangeState ::
  "AudioState \<Rightarrow> UspState \<Rightarrow> AudioState \<Rightarrow> UspState \<Rightarrow> Adapter \<Rightarrow> bool \<times> Adapter" where
  "ChangeState fromAudioState fromUspState toAudioState toUspState a =
     (if fromAudioState = m_audioState a \<and>
         fromUspState = m_uspState a \<and>
         ((fromUspState \<noteq> UspState_Error \<and>
           fromUspState \<noteq> UspState_Zombie \<and>
           fromUspState \<noteq> UspState_Terminating) \<or>
          ((fromUspState = toUspState) \<or>
           (fromUspState = UspState_Error \<and> toUspState = UspState_Terminating) \<or>
           (fromUspState = UspState_Terminating \<and> toUspState = UspState_Zombie)))
      then (True, a\<lparr>m_audioState := toAudioState, m_uspState := toUspState\<rparr>)
      else (False, a))"

text \<open>
  Modelled from the spec: the short forms of \<^verbatim>\<open>ChangeState\<close>, the \<^verbatim>\<open>IsState\<close>
  tests, \<^verbatim>\<open>IsBadState\<close>, \<^verbatim>\<open>IsStateBetweenIncluding\<close> and \<^verbatim>\<open>IsInteractiveMode\<close>
  are inline members of the header, which is not among the sources. Section 4.F of the
  specification gives them: a short form fills the missing "from" (and the missing "to")
  with the current value of that axis; the bad-state predicate is
  \<open>usp_state \<in> {Error, Terminating, Zombie}\<close>; the interval
  \<open>[WaitingForPhrase, WaitingForTurnEnd]\<close> follows the order in which section 3 lists the
  protocol states.
\<close>

definition ChangeState_toAudio :: "AudioState \<Rightarrow> Adapter \<Rightarrow> bool \<times> Adapter" where
  "ChangeState_toAudio toAudioState a =
     ChangeState (m_audioState a) (m_uspState a) toAudioState (m_uspState a) a"

definition ChangeState_toUsp :: "UspState \<Rightarrow> Adapter \<Rightarrow> bool \<times> Adapter" where
  "ChangeState_toUsp toUspState a =
     ChangeState (m_audioState a) (m_uspState a) (m_audioState a) toUspState a"

definition ChangeState_toBoth :: "AudioState \<Rightarrow> UspState \<Rightarrow> Adapter \<Rightarrow> bool \<times> Adapter" where
  "ChangeState_toBoth toAudioState toUspState a =
     ChangeState (m_audioState a) (m_uspState a) toAudioState toUspState a"

definition ChangeState_Audio :: "AudioState \<Rightarrow> AudioState \<Rightarrow> Adapter \<Rightarrow> bool \<times> Adapter" where
  "ChangeState_Audio fromAudioState toAudioState a =
     ChangeState fromAudioState (m_uspState a) toAudioState (m_uspState a) a"

definition ChangeState_Usp :: "UspState \<Rightarrow> UspState \<Rightarrow> Adapter \<Rightarrow> bool \<times> Adapter" where
  "ChangeState_Usp fromUspState toUspState a =
     ChangeState (m_audioState a) fromUspState (m_audioState a) toUspState a"

definition IsBadState :: "Adapter \<Rightarrow> bool" where
  "IsBadState a =
     (m_uspState a = UspState_Error \<or> m_uspState a = UspState_Terminating \<or>
      m_uspState a = UspState_Zombie)"

fun UspState_rank :: "UspState \<Rightarrow> int" where
  "UspState_rank UspState_Error = -1"
| "UspState_rank UspState_Idle = 0"
| "UspState_rank UspState_WaitingForTurnStart = 1"
| "UspState_rank UspState_WaitingForPhrase = 2"
| "UspState_rank UspState_WaitingForIntent = 3"
| "UspState_rank UspState_WaitingForIntent2 = 4"
| "UspState_rank UspState_WaitingForTurnEnd = 5"
| "UspState_rank UspState_Terminating = 9998"
| "UspState_rank UspState_Zombie = 9999"

definition IsStateBetweenIncluding :: "UspState \<Rightarrow> UspState \<Rightarrow> Adapter \<Rightarrow> bool" where
  "IsStateBetweenIncluding state1 state2 a =
     (UspState_rank state1 \<le> UspState_rank (m_uspState a) \<and>
      UspState_rank (m_uspState a) \<le> UspState_rank state2)"

definition IsInteractiveMode :: "Adapter \<Rightarrow> bool" where
  "IsInteractiveMode a = (m_recoMode a = RecognitionMode_Interactive)"


subsection \<open>The session facade\<close>

definition UspSendMessage :: "string \<Rightarrow> string \<Rightarrow> Adapter \<Rightarrow> Adapter" where
  "UspSendMessage messagePath buffer a =
     (if m_uspState a \<noteq> UspState_Terminating \<and> m_uspState a \<noteq> UspState_Zombie \<and>
         m_handle a \<noteq> None
      then call_usp (SendMessage messagePath buffer) a
      else a)"

text \<open>
  A pointer with a byte count is a byte list with a number: the bytes the callee reads are
  the first \<open>byteToWrite\<close> bytes of the list.
\<close>

definition UspWrite_Actual :: "byte list \<Rightarrow> nat \<Rightarrow> Adapter \<Rightarrow> Adapter" where
  "UspWrite_Actual buffer byteToWrite a =
     (if m_uspState a \<noteq> UspState_Terminating \<and> m_uspState a \<noteq> UspState_Zombie \<and>
         m_handle a \<noteq> None
      then call_usp (WriteAudio (take byteToWrite buffer)) a
      else a)"

subsection \<open>The chunking uploader\<close>

text \<open>
  \<^verbatim>\<open>std::memcpy(dst + p, src, n)\<close> on a buffer held as a list: the bytes from offset
  \<open>p\<close> on are overwritten by \<open>src\<close>.
\<close>

definition memcpy_at :: "byte list \<Rightarrow> nat \<Rightarrow> byte list \<Rightarrow> byte list" where
  "memcpy_at dst p src = take p dst @ src @ drop (p + length src) dst"

text \<open>
  A newly allocated frame buffer. What it holds is never sent: the uploader emits only the
  bytes it has copied in.
\<close>

definition SpxAllocSharedUint8Buffer :: "nat \<Rightarrow> byte list" where
  "SpxAllocSharedUint8Buffer n = replicate n 0"

definition buffer_get :: "Adapter \<Rightarrow> byte list" where
  "buffer_get a = (case m_buffer a of None \<Rightarrow> [] | Some b \<Rightarrow> b)"

text \<open>
  The \<^verbatim>\<open>for (;;)\<close> loop of \<^verbatim>\<open>UspWrite_Buffered\<close>. The loop has no bound of its own
  (with an empty frame buffer and bytes left to write no iteration makes progress), so it is
  a partial function: \<open>None\<close> is "does not return". \<open>buffer\<close> is the caller's
  pointer, which the loop never advances: each \<^verbatim>\<open>memcpy\<close> reads from its start. A
  \<^verbatim>\<open>memcpy\<close> through the null \<^verbatim>\<open>m_ptrIntoBuffer\<close> has no defined behaviour and gives
  no result either.
\<close>

partial_function (option) UspWrite_Buffered_loop ::
  "bool \<Rightarrow> byte list \<Rightarrow> nat \<Rightarrow> Adapter \<Rightarrow> Adapter option" where
  "UspWrite_Buffered_loop flushBuffer buffer bytesToWrite a =
     (let a1 = (if flushBuffer \<or> (m_bytesInBuffer a > 0 \<and> m_bytesLeftInBuffer a = 0)
                then (UspWrite_Actual (buffer_get a) (m_bytesInBuffer a - m_bytesLeftInBuffer a) a)
                       \<lparr>m_ptrIntoBuffer := map_option (\<lambda>_. 0) (m_buffer a),
                        m_bytesLeftInBuffer := m_bytesInBuffer a\<rparr>
                else a);
          a2 = (if flushBuffer
                then a1\<lparr>m_buffer := None, m_bytesInBuffer := 0, m_ptrIntoBuffer := None,
                        m_bytesLeftInBuffer := 0\<rparr>
                else a1)
      in if bytesToWrite = 0 then Some a2
         else (let bytesThisLoop = min bytesToWrite (m_bytesLeftInBuffer a2)
               in case m_ptrIntoBuffer a2 of
                    None \<Rightarrow> None
                  | Some p \<Rightarrow>
                      UspWrite_Buffered_loop flushBuffer buffer (bytesToWrite - bytesThisLoop)
                        (a2\<lparr>m_buffer := Some (memcpy_at (buffer_get a2) p (take bytesThisLoop buffer)),
                            m_ptrIntoBuffer := Some (p + bytesThisLoop),
                            m_bytesLeftInBuffer := m_bytesLeftInBuffer a2 - bytesThisLoop\<rparr>)))"

declare UspWrite_Buffered_loop.simps [code]

definition UspWrite_Buffered :: "byte list \<Rightarrow> nat \<Rightarrow> Adapter \<Rightarrow> Adapter option" where
  "UspWrite_Buffered buffer bytesToWrite a =
     (let flushBuffer = (bytesToWrite = 0);
          a0 = (if m_buffer a = None
                then a\<lparr>m_buffer := Some (SpxAllocSharedUint8Buffer (m_servicePreferedBufferSizeSendingNow a)),
                       m_bytesInBuffer := m_servicePreferedBufferSizeSendingNow a,
                       m_ptrIntoBuffer := Some 0,
                       m_bytesLeftInBuffer := m_servicePreferedBufferSizeSendingNow a\<rparr>
                else a)
      in UspWrite_Buffered_loop flushBuffer buffer bytesToWrite a0)"

definition UspWrite :: "byte list \<Rightarrow> nat \<Rightarrow> Adapter \<Rightarrow> Adapter option" where
  "UspWrite buffer byteToWrite a =
     (if \<not> m_fUseBufferedImplementation a \<or> m_servicePreferedBufferSizeSendingNow a = 0
      then Some (UspWrite_Actual buffer byteToWrite a)
      else UspWrite_Buffered buffer byteToWrite a)"

definition UspWrite_Flush :: "Adapter \<Rightarrow> Adapter option" where
  "UspWrite_Flush a =
     (if m_uspState a \<noteq> UspState_Terminating \<and> m_uspState a \<noteq> UspState_Zombie \<and>
         m_handle a \<noteq> None
      then map_option (call_usp FlushAudio) (UspWrite_Buffered [] 0 a)
      else Some a)"


subsection \<open>The format-header writer\<close>

text \<open>
  \<^verbatim>\<open>memcpy\<close> from the address of a number or of a struct copies its object
  representation. The adapter is built for little-endian hosts with byte-packed wave
  format structs (the declarations are outside this file), so a 16- or 32-bit number is its
  bytes from the least significant one, and a \<^verbatim>\<open>WAVEFORMATEX\<close> in memory is its seven
  fields in declaration order, followed by the extra bytes.

  Modelled from the spec: \<^verbatim>\<open>sizeof(WAVEFORMAT)\<close> is 14 (section 4.A); the struct is
  \<^verbatim>\<open>WAVEFORMATEX\<close> without its last two fields.
\<close>

definition bytes_of_uint16 :: "16 word \<Rightarrow> byte list" where
  "bytes_of_uint16 w = [ucast w, ucast (drop_bit 8 w)]"

definition bytes_of_uint32 :: "32 word \<Rightarrow> byte list" where
  "bytes_of_uint32 w =
     [ucast w, ucast (drop_bit 8 w), ucast (drop_bit 16 w), ucast (drop_bit 24 w)]"

definition bytes_of_chars :: "string \<Rightarrow> byte list" where
  "bytes_of_chars cs = map (\<lambda>c. of_nat (of_char c)) cs"

definition bytes_of_WAVEFORMATEX :: "WAVEFORMATEX \<Rightarrow> byte list" where
  "bytes_of_WAVEFORMATEX f =
     bytes_of_uint16 (wFormatTag f) @ bytes_of_uint16 (nChannels f) @
     bytes_of_uint32 (nSamplesPerSec f) @ bytes_of_uint32 (nAvgBytesPerSec f) @
     bytes_of_uint16 (nBlockAlign f) @ bytes_of_uint16 (wBitsPerSample f) @
     bytes_of_uint16 (cbSize f) @ extra_bytes f"

definition sizeof_WAVEFORMAT :: nat where
  "sizeof_WAVEFORMAT = 14"

text \<open>
  The three writers take the buffer and the write pointer (an offset into the buffer) and
  return the buffer written and the pointer advanced.
\<close>

definition FormatBufferWriteBytes :: "byte list \<times> nat \<Rightarrow> byte list \<Rightarrow> nat \<Rightarrow> byte list \<times> nat" where
  "FormatBufferWriteBytes bp source bytes =
     (memcpy_at (fst bp) (snd bp) (take bytes source), snd bp + bytes)"

definition FormatBufferWriteNumber :: "byte list \<times> nat \<Rightarrow> 32 word \<Rightarrow> byte list \<times> nat" where
  "FormatBufferWriteNumber bp number =
     (memcpy_at (fst bp) (snd bp) (bytes_of_uint32 number), snd bp + 4)"

definition FormatBufferWriteChars :: "byte list \<times> nat \<Rightarrow> string \<Rightarrow> nat \<Rightarrow> byte list \<times> nat" where
  "FormatBufferWriteChars bp psz cch =
     (memcpy_at (fst bp) (snd bp) (take cch (bytes_of_chars psz)), snd bp + cch)"

text \<open>
  The header as \<^verbatim>\<open>UspWriteFormat\<close> builds it: the buffer of \<open>cbHeader\<close> bytes, the
  write pointer after the last write, and \<open>cbHeader\<close>. \<open>alloc\<close> is
  \<^verbatim>\<open>new uint8_t[n]\<close>: it gives \<open>n\<close> bytes of no particular contents.
\<close>

definition new_uint8_array :: "nat \<Rightarrow> byte list" where
  "new_uint8_array n = replicate n 0"

definition UspWriteFormat_header :: "(nat \<Rightarrow> byte list) \<Rightarrow> WAVEFORMATEX \<Rightarrow> (byte list \<times> nat) \<times> nat" where
  "UspWriteFormat_header alloc pformat =
     (let cbTag = 4; cbChunkType = 4; cbChunkSize = 4;
          cbFormatChunk = (of_nat sizeof_WAVEFORMAT + ucast (cbSize pformat) :: 32 word);
          cbRiffChunk = (0 :: 32 word);
          cbDataChunk = (0 :: 32 word);
          cbHeader = cbTag + cbChunkSize + cbChunkType + cbChunkType + cbChunkSize +
                     unat cbFormatChunk + cbChunkType + cbChunkSize;
          buffer = alloc cbHeader;
          ptr = (buffer, 0);
          ptr = FormatBufferWriteChars ptr ''RIFF'' cbTag;
          ptr = FormatBufferWriteNumber ptr cbRiffChunk;
          ptr = FormatBufferWriteChars ptr ''WAVE'' cbChunkType;
          ptr = FormatBufferWriteChars ptr ''fmt '' cbChunkType;
          ptr = FormatBufferWriteNumber ptr cbFormatChunk;
          ptr = FormatBufferWriteBytes ptr (bytes_of_WAVEFORMATEX pformat) (unat cbFormatChunk);
          ptr = FormatBufferWriteChars ptr ''data'' cbChunkType;
          ptr = FormatBufferWriteNumber ptr cbDataChunk
      in (ptr, cbHeader))"

definition UspWriteFormat :: "WAVEFORMATEX \<Rightarrow> Adapter \<Rightarrow> Adapter option" where
  "UspWriteFormat pformat a =
     (let h = UspWriteFormat_header new_uint8_array pformat
      in UspWrite (fst (fst h)) (snd h) a)"


subsection \<open>The context builder\<close>

text \<open>
  \<^verbatim>\<open>std::string::find\<close> of a character: the index of its first occurrence.
\<close>

fun string_find :: "char \<Rightarrow> string \<Rightarrow> nat option" where
  "string_find c [] = None"
| "string_find c (x # xs) =
     (if x = c then Some 0 else map_option Suc (string_find c xs))"

definition substr :: "string \<Rightarrow> nat \<Rightarrow> nat \<Rightarrow> string" where
  "substr s pos n = take n (drop pos s)"

text \<open>
  \<^verbatim>\<open>ref.replace(ref.find(':'), 1, "/")\<close>. With no colon in \<open>ref\<close> the position is
  \<^verbatim>\<open>npos\<close> and \<^verbatim>\<open>replace\<close> throws; the test before the call excludes that (lemma
  \<open>is_reference_grammar_find\<close> below), and the model leaves \<open>ref\<close> as it is there.
\<close>

definition replace_colon :: "string \<Rightarrow> string" where
  "replace_colon ref =
     (case string_find CHR '':'' ref of
        None \<Rightarrow> ref
      | Some pos \<Rightarrow> take pos ref @ ''/'' @ drop (pos + 1) ref)"

definition is_reference_grammar :: "string \<Rightarrow> bool" where
  "is_reference_grammar listenFor =
     (length listenFor > 3 \<and>
      listenFor ! 0 = CHR ''{'' \<and> listenFor ! (length listenFor - 1) = CHR ''}'' \<and>
      string_find CHR '':'' listenFor \<noteq> None)"

text \<open>The first loop of \<^verbatim>\<open>GetDgiJsonFromListenForList\<close>: one step, on the pair
  \<open>(grammars, genericItems)\<close>.\<close>

definition classify_listenFor :: "string \<Rightarrow> string list \<times> string list \<Rightarrow> string list \<times> string list" where
  "classify_listenFor listenFor gi =
     (if is_reference_grammar listenFor
      then (fst gi @ [replace_colon (substr listenFor 1 (length listenFor - 2))], snd gi)
      else (fst gi, snd gi @ [listenFor]))"

definition classify_listenForList :: "string list \<Rightarrow> string list \<times> string list" where
  "classify_listenForList listenForList = fold classify_listenFor listenForList ([], [])"

text \<open>The two inner loops, on the pair \<open>(dgiJson, appendComma)\<close>.\<close>

definition append_item :: "string \<Rightarrow> string \<times> bool \<Rightarrow> string \<times> bool" where
  \<open>append_item item jc =
     (fst jc @ (if snd jc then '','' else '''') @ ''{"Text":"'' @ item @ ''"}'', True)\<close>

definition append_grammar :: "string \<Rightarrow> string \<times> bool \<Rightarrow> string \<times> bool" where
  \<open>append_grammar grammar jc =
     (fst jc @ (if snd jc then '','' else '''') @ ''"'' @ grammar @ ''"'', True)\<close>

definition dgiJson_of :: "string list \<Rightarrow> string list \<Rightarrow> string" where
  \<open>dgiJson_of grammars genericItems =
     (if length grammars > 0 \<or> length genericItems > 0
      then
        (let appendComma = False;
             dgiJson = ''{'';
             jc = (if length genericItems > 0
                   then (let dgiJson = dgiJson @ ''"Groups": ['';
                             dgiJson = dgiJson @ ''{"Type":"Generic","Items":['';
                             jc = fold append_item genericItems (dgiJson, False);
                             dgiJson = fst jc @ '']}'';
                             dgiJson = dgiJson @ '']''
                         in (dgiJson, True))
                   else (dgiJson, appendComma));
             jc = (if length grammars > 0
                   then (let dgiJson = fst jc @ (if snd jc then '','' else '''');
                             dgiJson = dgiJson @ ''"ReferenceGrammars": ['';
                             jc = fold append_grammar grammars (dgiJson, False);
                             dgiJson = fst jc @ '']''
                         in (dgiJson, True))
                   else jc)
         in fst jc @ ''}'')
      else '''')\<close>

definition GetDgiJsonFromListenForList :: "Adapter \<Rightarrow> string list \<Rightarrow> string" where
  "GetDgiJsonFromListenForList a listenForList =
     (let noDGI = GetBooleanValue (site a) CARBON_INTERNAL_USP_NoDGI False;
          gi = classify_listenForList listenForList;
          dgiJson = dgiJson_of (fst gi) (snd gi)
      in if noDGI then '''' else dgiJson)"

definition GetLanguageUnderstandingJsonFromIntentInfo :: "Adapter \<Rightarrow> string \<Rightarrow> string \<Rightarrow> string \<Rightarrow> string" where
  \<open>GetLanguageUnderstandingJsonFromIntentInfo a provider ident key =
     (let noIntentJson = GetBooleanValue (site a) CARBON_INTERNAL_USP_NoIntentJson False;
          intentJson =
            (if provider \<noteq> [] \<and> ident \<noteq> [] \<and> key \<noteq> []
             then ''{'' @ ''"provider":"'' @ (provider @ ''",'') @
                  ''"id":"'' @ (ident @ ''",'') @
                  ''"key":"'' @ (key @ ''"'') @ ''}''
             else '''')
      in if noIntentJson then '''' else intentJson)\<close>

definition GetSpeechContextJson :: "string \<Rightarrow> string \<Rightarrow> string" where
  \<open>GetSpeechContextJson dgiJson intentJson =
     (if dgiJson \<noteq> [] \<or> intentJson \<noteq> []
      then
        (let appendComma = False;
             contextJson = ''{'';
             jc = (if dgiJson \<noteq> []
                   then (contextJson @ (if appendComma then '','' else '''') @ ''"dgi":'' @ dgiJson,
                         True)
                   else (contextJson, appendComma));
             jc = (if intentJson \<noteq> []
                   then (fst jc @ (if snd jc then '','' else '''') @ ''"intent":'' @ intentJson,
                         True)
                   else jc)
         in fst jc @ ''}'')
      else '''')\<close>

definition UspSendSpeechContext :: "Adapter \<Rightarrow> Adapter" where
  "UspSendSpeechContext a =
     (let listenForList = ListenForList (site a);
          listenForJson = GetDgiJsonFromListenForList a listenForList;
          (provider, ident, key) = IntentInfo (site a);
          intentJson = GetLanguageUnderstandingJsonFromIntentInfo a provider ident key;
          a = a\<lparr>m_expectIntentResponse := (intentJson \<noteq> [])\<rparr>;
          speechContext = GetSpeechContextJson listenForJson intentJson
      in if speechContext \<noteq> [] then UspSendMessage ''speech.context'' speechContext a else a)"

subsection \<open>Endpoint, recognition mode and authentication\<close>

text \<open>
  Modelled from the spec: \<^verbatim>\<open>PAL::wcsicmp\<close> is declared outside this file; section 4.E
  reads \<^verbatim>\<open>wcsicmp(a, b) == 0\<close> as "case-insensitively equal". Letters are compared
  after mapping \<open>A\<close> to \<open>Z\<close> onto \<open>a\<close> to \<open>z\<close>.
\<close>

definition tolower :: "char \<Rightarrow> char" where
  "tolower c =
     (if (65::nat) \<le> of_char c \<and> of_char c \<le> (90::nat)
      then char_of (of_char c + (32::nat)) else c)"

definition wcsicmp_equal :: "string \<Rightarrow> string \<Rightarrow> bool" where
  "wcsicmp_equal s t = (map tolower s = map tolower t)"

text \<open>\<^verbatim>\<open>s.find(pattern) != npos\<close> for a string pattern.\<close>

fun contains_substring :: "string \<Rightarrow> string \<Rightarrow> bool" where
  "contains_substring pattern [] = (pattern = [])"
| "contains_substring pattern (x # xs) =
     (take (length pattern) (x # xs) = pattern \<or> contains_substring pattern xs)"

text \<open>
  A function that can throw returns the thrown code (\<open>Inl\<close>) or its value (\<open>Inr\<close>),
  together with the adapter as it is at that moment: what was assigned before the throw
  stays assigned.
\<close>

definition SetUspEndpoint :: "Client \<Rightarrow> Adapter \<Rightarrow> (SPXHR + Client) \<times> Adapter" where
  "SetUspEndpoint client a0 =
     (let a = a0\<lparr>m_customEndpoint := False\<rparr>;
          endpoint = GetStringValue (site a) g_SPEECH_Endpoint
      in if wcsicmp_equal endpoint ''CORTANA''
         then (Inr (client\<lparr>client_EndpointType := EndpointType_CDSDK\<rparr>), a)
         else if endpoint \<noteq> []
         then (Inr (client\<lparr>client_EndpointUrl := Some endpoint\<rparr>), a\<lparr>m_customEndpoint := True\<rparr>)
         else
           (let fromLang = GetStringValue (site a) g_TRANSLATION_FromLanguage
            in if fromLang \<noteq> []
               then
                 (let toLangs = GetStringValue (site a) g_TRANSLATION_ToLanguages
                  in if toLangs = [] then (Inl SPXERR_INVALID_ARG, a)
                     else
                       (let voice = GetStringValue (site a) g_TRANSLATION_Voice;
                            customSpeechModelId = GetStringValue (site a) g_SPEECH_ModelId
                        in (Inr (client\<lparr>client_EndpointType := EndpointType_Translation,
                                        client_TranslationSourceLanguage := Some fromLang,
                                        client_TranslationTargetLanguages := Some toLangs,
                                        client_TranslationVoice := Some voice,
                                        client_ModelId := Some customSpeechModelId\<rparr>), a)))
               else
                 (let customSpeechModelId = GetStringValue (site a) g_SPEECH_ModelId
                  in if customSpeechModelId \<noteq> []
                     then (Inr (client\<lparr>client_EndpointType := EndpointType_Cris,
                                       client_ModelId := Some customSpeechModelId\<rparr>), a)
                     else if HasStringValue (site a) g_SPEECH_RecoLanguage
                     then (Inr (client\<lparr>client_EndpointType := EndpointType_BingSpeech,
                                       client_Language :=
                                         Some (GetStringValue (site a) g_SPEECH_RecoLanguage)\<rparr>), a)
                     else (Inr (client\<lparr>client_EndpointType := EndpointType_BingSpeech\<rparr>), a))))"

text \<open>
  The two mode look-ups return the result code and the mode; the mode is the one passed in
  when the code is not \<^verbatim>\<open>SPX_NOERROR\<close>.

  Modelled from the spec: the three mode names (\<^verbatim>\<open>g_SPEECH_RecoMode_Interactive\<close> and
  the others) are declared outside this file; section 4.E names the legal values
  Interactive, Conversation and Dictation, compared without regard to case.
\<close>

definition g_SPEECH_RecoMode_Interactive :: string where
  "g_SPEECH_RecoMode_Interactive = ''Interactive''"

definition g_SPEECH_RecoMode_Conversation :: string where
  "g_SPEECH_RecoMode_Conversation = ''Conversation''"

definition g_SPEECH_RecoMode_Dictation :: string where
  "g_SPEECH_RecoMode_Dictation = ''Dictation''"

definition GetRecoModeFromProperties :: "Site \<Rightarrow> RecognitionMode \<Rightarrow> SPXHR \<times> RecognitionMode" where
  "GetRecoModeFromProperties properties recoMode =
     (let v = GetStringValue properties g_SPEECH_RecoMode
      in if v = [] then (SPXERR_NOT_FOUND, recoMode)
         else if wcsicmp_equal v g_SPEECH_RecoMode_Interactive
         then (SPX_NOERROR, RecognitionMode_Interactive)
         else if wcsicmp_equal v g_SPEECH_RecoMode_Conversation
         then (SPX_NOERROR, RecognitionMode_Conversation)
         else if wcsicmp_equal v g_SPEECH_RecoMode_Dictation
         then (SPX_NOERROR, RecognitionMode_Dictation)
         else (SPXERR_INVALID_ARG, recoMode))"

definition GetRecoModeFromEndpoint :: "string \<Rightarrow> RecognitionMode \<Rightarrow> SPXHR \<times> RecognitionMode" where
  "GetRecoModeFromEndpoint endpoint recoMode =
     (if contains_substring ''/interactive/'' endpoint
      then (SPX_NOERROR, RecognitionMode_Interactive)
      else if contains_substring ''/conversation/'' endpoint
      then (SPX_NOERROR, RecognitionMode_Conversation)
      else if contains_substring ''/dictation/'' endpoint
      then (SPX_NOERROR, RecognitionMode_Dictation)
      else (SPXERR_NOT_FOUND, recoMode))"

definition SetUspRecoMode :: "Client \<Rightarrow> Adapter \<Rightarrow> (SPXHR + Client) \<times> Adapter" where
  "SetUspRecoMode client a =
     (let mode = RecognitionMode_Interactive;
          (checkHr, mode) = GetRecoModeFromProperties (site a) mode
      in if SPX_FAILED checkHr \<and> checkHr \<noteq> SPXERR_NOT_FOUND then (Inl checkHr, a)
         else if checkHr = SPXERR_NOT_FOUND \<and> m_customEndpoint a
         then
           (let endpoint = GetStringValue (site a) g_SPEECH_Endpoint
            in if endpoint = [] then (Inl SPXERR_RUNTIME_ERROR, a)
               else
                 (let (checkHr, mode) = GetRecoModeFromEndpoint endpoint mode
                  in if SPX_FAILED checkHr \<and> checkHr \<noteq> SPXERR_NOT_FOUND then (Inl checkHr, a)
                     else (Inr (client\<lparr>client_RecognitionMode := Some mode\<rparr>),
                           a\<lparr>m_recoMode := mode\<rparr>)))
         else (Inr (client\<lparr>client_RecognitionMode := Some mode\<rparr>), a\<lparr>m_recoMode := mode\<rparr>))"

definition SetUspAuthentication :: "Client \<Rightarrow> Adapter \<Rightarrow> (SPXHR + Client) \<times> Adapter" where
  "SetUspAuthentication client a =
     (let uspSubscriptionKey = GetStringValue (site a) g_SPEECH_SubscriptionKey;
          uspAuthToken = GetStringValue (site a) g_SPEECH_AuthToken;
          uspRpsToken = GetStringValue (site a) g_SPEECH_RpsToken
      in if uspSubscriptionKey \<noteq> []
         then (Inr (client\<lparr>client_Authentication :=
                      Some (AuthenticationType_SubscriptionKey, uspSubscriptionKey)\<rparr>), a)
         else if uspAuthToken \<noteq> []
         then (Inr (client\<lparr>client_Authentication :=
                      Some (AuthenticationType_AuthorizationToken, uspAuthToken)\<rparr>), a)
         else if uspRpsToken \<noteq> []
         then (Inr (client\<lparr>client_Authentication :=
                      Some (AuthenticationType_SearchDelegationRPSToken, uspRpsToken)\<rparr>), a)
         else (Inl SPXERR_INVALID_ARG, a))"

text \<open>
  \<^verbatim>\<open>UspInitialize\<close>: \<^verbatim>\<open>client.Connect()\<close> opens the transport session; the handle
  is the client it was opened from. The site always answers the query for its named
  properties.
\<close>

definition UspInitialize :: "Adapter \<Rightarrow> (SPXHR + unit) \<times> Adapter" where
  "UspInitialize a =
     (if m_handle a \<noteq> None then (Inl SPXERR_ALREADY_INITIALIZED, a)
      else
        (let client = new_Client EndpointType_BingSpeech
         in case SetUspEndpoint client a of
              (Inl e, a) \<Rightarrow> (Inl e, a)
            | (Inr client, a) \<Rightarrow>
                (case SetUspRecoMode client a of
                   (Inl e, a) \<Rightarrow> (Inl e, a)
                 | (Inr client, a) \<Rightarrow>
                     (case SetUspAuthentication client a of
                        (Inl e, a) \<Rightarrow> (Inl e, a)
                      | (Inr client, a) \<Rightarrow>
                          (Inr (), call_usp (Connect client) (a\<lparr>m_handle := Some client\<rparr>))))))"

definition EnsureUspInit :: "Adapter \<Rightarrow> (SPXHR + unit) \<times> Adapter" where
  "EnsureUspInit a = (if m_handle a = None then UspInitialize a else (Inr (), a))"

definition PrepareAudioReadyState :: "Adapter \<Rightarrow> (SPXHR + unit) \<times> Adapter" where
  "PrepareAudioReadyState a = EnsureUspInit (a\<lparr>m_servicePreferedBufferSizeSendingNow := 0\<rparr>)"

text \<open>
  \<^verbatim>\<open>PrepareFirstAudioReadyState\<close> copies \<^verbatim>\<open>sizeof(WAVEFORMATEX) + cbSize\<close> bytes of
  the caller's format: the struct and the first \<open>cbSize\<close> extra bytes.
\<close>

definition PrepareFirstAudioReadyState :: "WAVEFORMATEX \<Rightarrow> Adapter \<Rightarrow> (SPXHR + unit) \<times> Adapter" where
  "PrepareFirstAudioReadyState format a =
     PrepareAudioReadyState
       (a\<lparr>m_format := Some (format\<lparr>extra_bytes := take (unat (cbSize format)) (extra_bytes format)\<rparr>)\<rparr>)"

text \<open>\<^verbatim>\<open>m_handle.reset()\<close>: dropping the handle closes the session it holds.\<close>

definition handle_reset :: "Adapter \<Rightarrow> Adapter" where
  "handle_reset a =
     (if m_handle a \<noteq> None then call_usp DestroyConnection (a\<lparr>m_handle := None\<rparr>) else a)"

definition ShouldResetAfterError :: "Adapter \<Rightarrow> bool" where
  "ShouldResetAfterError a =
     (GetBooleanValue (site a) CARBON_INTERNAL_USP_ResetAfterError False \<and> m_format a \<noteq> None)"

definition ResetAfterError :: "Adapter \<Rightarrow> (SPXHR + unit) \<times> Adapter" where
  "ResetAfterError a = PrepareAudioReadyState (handle_reset a)"

text \<open>
  \<^verbatim>\<open>SendPreAudioMessages\<close>. The product is computed in \<^verbatim>\<open>size_t\<close>, taken as 64 bits
  wide. With no stored format the function dereferences a null pointer and the model gives no
  result.
\<close>

definition SendPreAudioMessages :: "Adapter \<Rightarrow> Adapter option" where
  "SendPreAudioMessages a =
     (let a = UspSendSpeechContext a
      in case m_format a of
           None \<Rightarrow> None
         | Some format \<Rightarrow>
             map_option
               (\<lambda>a. a\<lparr>m_servicePreferedBufferSizeSendingNow :=
                         unat ((ucast (nSamplesPerSec format) :: 64 word) *
                               ucast (nBlockAlign format) *
                               of_nat (m_servicePreferedMilliseconds a) div 1000)\<rparr>)
               (UspWriteFormat format a))"

subsection \<open>Final results, now or later\<close>

definition FireFinalResultLater :: "SpeechPhraseMsg \<Rightarrow> Adapter \<Rightarrow> Adapter" where
  "FireFinalResultLater message a = a\<lparr>m_finalResultMessageToFireLater := message\<rparr>"

definition FireFinalResultNow :: "SpeechPhraseMsg \<Rightarrow> string \<Rightarrow> Adapter \<Rightarrow> Adapter" where
  "FireFinalResultNow message luisJson a =
     (let result = CreateFinalResult (displayText message) ResultType_Speech;
          result = result\<lparr>RESULT_Json := Some (phrase_json message)\<rparr>;
          result = (if luisJson \<noteq> []
                    then result\<lparr>RESULT_LanguageUnderstandingJson := Some luisJson\<rparr>
                    else result)
      in call_site (FireAdapterResult_FinalResult (phrase_offset message) result) a)"

definition FireFinalResultLater_WaitingForIntentComplete :: "string \<Rightarrow> Adapter \<Rightarrow> Adapter" where
  "FireFinalResultLater_WaitingForIntentComplete luisJson a =
     (let a = FireFinalResultNow (m_finalResultMessageToFireLater a) luisJson a
      in a\<lparr>m_finalResultMessageToFireLater := SpeechPhraseMsg_empty\<rparr>)"

subsection \<open>The ingress operations\<close>

text \<open>
  \<^verbatim>\<open>GetSite()\<close> is taken to be non-null throughout, as every handler asserts; of the two
  checks of \<^verbatim>\<open>Init\<close> the one on the handle remains.
\<close>

definition Init :: "Adapter \<Rightarrow> (SPXHR + unit) \<times> Adapter" where
  "Init a = (if m_handle a \<noteq> None then (Inl SPXERR_ALREADY_INITIALIZED, a) else (Inr (), a))"

definition Term :: "Adapter \<Rightarrow> Adapter" where
  "Term a =
     (case ChangeState_toUsp UspState_Terminating a of
        (True, a) \<Rightarrow> snd (ChangeState_toUsp UspState_Zombie (handle_reset a))
      | (False, a) \<Rightarrow> a)"

definition SetAdapterMode :: "bool \<Rightarrow> Adapter \<Rightarrow> Adapter" where
  "SetAdapterMode singleShot a = a\<lparr>m_singleShot := singleShot\<rparr>"

text \<open>
  In a chain of \<^verbatim>\<open>else if\<close> tests that call \<^verbatim>\<open>ChangeState\<close>, a failed call leaves
  the adapter as it was, so the next test is written on the adapter the failed call
  returns.
\<close>

definition SetFormat :: "WAVEFORMATEX option \<Rightarrow> Adapter \<Rightarrow> (SPXHR + unit) \<times> Adapter" where
  "SetFormat pformat a =
     (if IsBadState a \<and> m_uspState a \<noteq> UspState_Terminating then (Inr (), a)
      else
        (case pformat of
           Some format \<Rightarrow>
             (case (if m_uspState a = UspState_Idle
                    then ChangeState_Audio AudioState_Idle AudioState_Ready a else (False, a)) of
                (True, a) \<Rightarrow> PrepareFirstAudioReadyState format a
              | (False, a) \<Rightarrow> (Inr (), a))
         | None \<Rightarrow>
             (case (case ChangeState_toAudio AudioState_Idle a of
                      (True, a) \<Rightarrow> (True, a)
                    | (False, a) \<Rightarrow> (m_uspState a = UspState_Terminating, a)) of
                (True, a) \<Rightarrow>
                  (Inr (), (call_site AdapterCompletedSetFormatStop a)\<lparr>m_format := None\<rparr>)
              | (False, a) \<Rightarrow> (Inr (), a))))"

text \<open>
  \<open>None\<close> is "does not return" (see \<open>UspWrite_Buffered_loop\<close> and
  \<open>SendPreAudioMessages\<close>).
\<close>

definition ProcessAudio :: "byte list \<Rightarrow> nat \<Rightarrow> Adapter \<Rightarrow> Adapter option" where
  "ProcessAudio data sz a =
     (if IsBadState a then Some a
      else
        (case (if sz > 0
               then ChangeState AudioState_Ready UspState_Idle AudioState_Sending
                      UspState_WaitingForTurnStart a
               else (False, a)) of
           (True, a) \<Rightarrow>
             Option.bind (SendPreAudioMessages a)
               (\<lambda>a. map_option (call_site AdapterStartingTurn) (UspWrite data sz a))
         | (False, a) \<Rightarrow>
             if sz > 0 \<and> m_audioState a = AudioState_Sending then UspWrite data sz a
             else if sz = 0 \<and> m_audioState a = AudioState_Sending then UspWrite_Flush a
             else Some a))"

subsection \<open>The service events\<close>

definition OnSpeechStartDetected :: "nat \<Rightarrow> Adapter \<Rightarrow> Adapter" where
  "OnSpeechStartDetected offset a =
     (if IsBadState a then a
      else if m_uspState a = UspState_WaitingForPhrase
      then call_site (AdapterDetectedSpeechStart offset) a
      else a)"

definition OnSpeechEndDetected :: "nat \<Rightarrow> Adapter \<Rightarrow> Adapter option" where
  "OnSpeechEndDetected offset a =
     (let (requestIdle, a) =
            (if m_singleShot a then ChangeState_Audio AudioState_Sending AudioState_Stopping a
             else (False, a));
          a = (if IsBadState a then a
               else if IsStateBetweenIncluding UspState_WaitingForPhrase UspState_WaitingForTurnEnd a \<and>
                       (m_audioState a = AudioState_Idle \<or> m_audioState a = AudioState_Sending \<or>
                        m_audioState a = AudioState_Stopping)
               then call_site (AdapterDetectedSpeechEnd offset) a
               else a)
      in map_option
           (\<lambda>a. if requestIdle \<and> \<not> IsBadState a then call_site AdapterRequestingAudioIdle a else a)
           (UspWrite_Flush a))"

definition intermediate_speech_result :: "SpeechHypothesisMsg \<Rightarrow> RecoResult" where
  "intermediate_speech_result message =
     (CreateIntermediateResult (hypothesis_text message) ResultType_Speech)
       \<lparr>RESULT_Json := Some (hypothesis_json message)\<rparr>"

definition OnSpeechHypothesis :: "SpeechHypothesisMsg \<Rightarrow> Adapter \<Rightarrow> Adapter" where
  "OnSpeechHypothesis message a =
     (if IsBadState a then a
      else if m_uspState a = UspState_WaitingForPhrase
      then call_site (FireAdapterResult_Intermediate (hypothesis_offset message)
                        (intermediate_speech_result message)) a
      else a)"

text \<open>
  \<^verbatim>\<open>USP::SpeechFragmentMsg\<close> has the fields of the hypothesis message that the adapter
  reads; the same record stands for both.
\<close>

definition OnSpeechFragment :: "SpeechHypothesisMsg \<Rightarrow> Adapter \<Rightarrow> Adapter" where
  "OnSpeechFragment message a =
     (let (sendIntermediate, a) =
            (if IsBadState a then (False, a)
             else
               (case ChangeState_Usp UspState_WaitingForIntent UspState_WaitingForIntent2 a of
                  (True, a) \<Rightarrow>
                    (True, snd (ChangeState_Usp UspState_WaitingForIntent2 UspState_WaitingForPhrase
                                  (FireFinalResultLater_WaitingForIntentComplete [] a)))
                | (False, a) \<Rightarrow>
                    if m_uspState a = UspState_WaitingForPhrase then (True, a) else (False, a)))
      in if sendIntermediate
         then call_site (FireAdapterResult_Intermediate (hypothesis_offset message)
                           (intermediate_speech_result message)) a
         else a)"

definition OnSpeechPhrase :: "SpeechPhraseMsg \<Rightarrow> Adapter \<Rightarrow> Adapter" where
  "OnSpeechPhrase message a =
     (if IsBadState a then a
      else
        (case (if m_expectIntentResponse a \<and> recognitionStatus message = RecognitionStatus_Success
               then ChangeState_Usp UspState_WaitingForPhrase UspState_WaitingForIntent a
               else (False, a)) of
           (True, a) \<Rightarrow> FireFinalResultLater message a
         | (False, a) \<Rightarrow>
             (case (if IsInteractiveMode a
                    then ChangeState_Usp UspState_WaitingForPhrase UspState_WaitingForTurnEnd a
                    else ChangeState_Usp UspState_WaitingForPhrase UspState_WaitingForPhrase a) of
                (True, a) \<Rightarrow> FireFinalResultNow message [] a
              | (False, a) \<Rightarrow> a)))"

definition TranslationTextStatus_of :: "TranslationStatus \<Rightarrow> SPXHR + TranslationTextStatus" where
  "TranslationTextStatus_of st =
     (case st of
        TranslationStatus_Success \<Rightarrow> Inr TranslationTextStatus_Success
      | TranslationStatus_Error \<Rightarrow> Inr TranslationTextStatus_Error
      | TranslationStatus_Other n \<Rightarrow> Inl SPXERR_RUNTIME_ERROR)"

definition OnTranslationHypothesis :: "TranslationHypothesisMsg \<Rightarrow> Adapter \<Rightarrow> (SPXHR + unit) \<times> Adapter" where
  "OnTranslationHypothesis message a =
     (if IsBadState a then (Inr (), a)
      else if m_uspState a = UspState_WaitingForPhrase
      then
        (let result = CreateIntermediateResult (tr_hypothesis_text message) ResultType_TranslationText;
             result = result\<lparr>RESULT_Json := Some (tr_hypothesis_json message)\<rparr>;
             translation = tr_hypothesis_translation message
         in case TranslationTextStatus_of (translationStatus translation) of
              Inl e \<Rightarrow> (Inl e, a)
            | Inr status \<Rightarrow>
                (Inr (),
                 call_site
                   (FireAdapterResult_Intermediate (tr_hypothesis_offset message)
                      (result\<lparr>TranslationTextResult :=
                                Some (status, translation_texts translation,
                                      failureReason translation)\<rparr>)) a))
      else (Inr (), a))"

definition OnTranslationPhrase :: "TranslationPhraseMsg \<Rightarrow> Adapter \<Rightarrow> (SPXHR + unit) \<times> Adapter" where
  "OnTranslationPhrase message a =
     (if IsBadState a then (Inr (), a)
      else
        (case (if IsInteractiveMode a
               then ChangeState_Usp UspState_WaitingForPhrase UspState_WaitingForTurnEnd a
               else ChangeState_Usp UspState_WaitingForPhrase UspState_WaitingForPhrase a) of
           (True, a) \<Rightarrow>
             (let result = CreateFinalResult (tr_phrase_text message) ResultType_TranslationText;
                  result = result\<lparr>RESULT_Json := Some (tr_phrase_json message)\<rparr>;
                  translation = tr_phrase_translation message
              in case TranslationTextStatus_of (translationStatus translation) of
                   Inl e \<Rightarrow> (Inl e, a)
                 | Inr status \<Rightarrow>
                     (Inr (),
                      call_site
                        (FireAdapterResult_FinalResult (tr_phrase_offset message)
                           (result\<lparr>TranslationTextResult :=
                                     Some (status, translation_texts translation,
                                           failureReason translation)\<rparr>)) a))
         | (False, a) \<Rightarrow> (Inr (), a)))"

definition OnTranslationSynthesis :: "byte list \<Rightarrow> nat \<Rightarrow> Adapter \<Rightarrow> Adapter" where
  "OnTranslationSynthesis audioBuffer audioLength a =
     (let result = CreateFinalResult [] ResultType_TranslationSynthesis;
          result = result\<lparr>TranslationSynthesisResult :=
                     Some (TranslationSynthesisStatus_Success, take audioLength audioBuffer, [])\<rparr>
      in call_site (FireAdapterResult_TranslationSynthesis result) a)"

definition OnTranslationSynthesisEnd :: "SynthesisStatus \<Rightarrow> string \<Rightarrow> Adapter \<Rightarrow> (SPXHR + unit) \<times> Adapter" where
  "OnTranslationSynthesisEnd synthesisStatus reason a =
     (let result = CreateFinalResult [] ResultType_TranslationSynthesis
      in case synthesisStatus of
           SynthesisStatus_Other n \<Rightarrow> (Inl SPXERR_RUNTIME_ERROR, a)
         | _ \<Rightarrow>
           (let status = (if synthesisStatus = SynthesisStatus_Success
                          then TranslationSynthesisStatus_SynthesisEnd
                          else TranslationSynthesisStatus_Error)
            in (Inr (),
                call_site
                  (FireAdapterResult_TranslationSynthesis
                     (result\<lparr>TranslationSynthesisResult := Some (status, [], reason)\<rparr>)) a)))"

definition OnTurnStart :: "string \<Rightarrow> Adapter \<Rightarrow> Adapter" where
  "OnTurnStart contextServiceTag a =
     (if IsBadState a then a
      else
        (case ChangeState_Usp UspState_WaitingForTurnStart UspState_WaitingForPhrase a of
           (True, a) \<Rightarrow> call_site (AdapterStartedTurn contextServiceTag) a
         | (False, a) \<Rightarrow> a))"

text \<open>
  The end of \<^verbatim>\<open>OnTurnEnd\<close>, after the lock is released: the two calls on the site and
  the flush.
\<close>

definition OnTurnEnd_unlocked :: "bool \<Rightarrow> bool \<Rightarrow> Adapter \<Rightarrow> Adapter option" where
  "OnTurnEnd_unlocked adapterTurnStopped requestIdle a =
     (let a = (if adapterTurnStopped then call_site AdapterStoppedTurn a else a)
      in if requestIdle
         then map_option (call_site AdapterRequestingAudioIdle) (UspWrite_Flush a)
         else Some a)"

definition OnTurnEnd :: "Adapter \<Rightarrow> ((SPXHR + unit) \<times> Adapter) option" where
  "OnTurnEnd a =
     (let (prepareReady, a) =
            (if \<not> m_singleShot a then ChangeState_Audio AudioState_Sending AudioState_Ready a
             else (False, a));
          (requestIdle, a) =
            (if m_singleShot a then ChangeState_Audio AudioState_Sending AudioState_Stopping a
             else (False, a));
          (adapterTurnStopped, a) =
            (if IsBadState a then (False, a)
             else
               (case (if IsInteractiveMode a
                      then ChangeState_Usp UspState_WaitingForTurnEnd UspState_Idle a
                      else ChangeState_Usp UspState_WaitingForPhrase UspState_Idle a) of
                  (True, a) \<Rightarrow> (True, a)
                | (False, a) \<Rightarrow>
                    (case ChangeState_Usp UspState_WaitingForIntent UspState_WaitingForIntent2 a of
                       (True, a) \<Rightarrow>
                         (True, snd (ChangeState_Usp UspState_WaitingForIntent2 UspState_Idle
                                       (FireFinalResultLater_WaitingForIntentComplete [] a)))
                     | (False, a) \<Rightarrow> (False, a))))
      in case (if prepareReady \<and> \<not> IsBadState a then PrepareAudioReadyState a else (Inr (), a)) of
           (Inl e, a) \<Rightarrow> Some (Inl e, a)
         | (Inr u, a) \<Rightarrow>
             map_option (\<lambda>a. (Inr (), a)) (OnTurnEnd_unlocked adapterTurnStopped requestIdle a))"

definition OnError :: "string \<Rightarrow> Adapter \<Rightarrow> (SPXHR + unit) \<times> Adapter" where
  "OnError error a =
     (if IsBadState a then (Inr (), a)
      else
        (case (if ShouldResetAfterError a
               then ChangeState_toBoth AudioState_Ready UspState_Idle a else (False, a)) of
           (True, a) \<Rightarrow> ResetAfterError (call_site (Site_Error error) a)
         | (False, a) \<Rightarrow>
             (case ChangeState_toUsp UspState_Error a of
                (True, a) \<Rightarrow> (Inr (), call_site (Site_Error error) a)
              | (False, a) \<Rightarrow> (Inr (), a))))"

definition OnUserMessage :: "string \<Rightarrow> string \<Rightarrow> string \<Rightarrow> nat \<Rightarrow> Adapter \<Rightarrow> Adapter" where
  "OnUserMessage path contentType buffer sz a =
     (if path = ''response''
      then (if m_uspState a = UspState_WaitingForIntent
            then FireFinalResultLater_WaitingForIntentComplete (take sz buffer) a
            else a)
      else a)"

subsection \<open>Stimuli\<close>

text \<open>
  Every ingress operation and every service event, as one datatype, and the adapter's
  reaction to one of them: \<open>None\<close> when the member function does not return, else whether it
  threw, and the adapter afterwards.
\<close>

datatype Stimulus =
  Stim_Init
  | Stim_Term
  | Stim_SetAdapterMode bool
  | Stim_SetFormat "WAVEFORMATEX option"
  | Stim_ProcessAudio "byte list" nat
  | Stim_OnSpeechStartDetected nat
  | Stim_OnSpeechEndDetected nat
  | Stim_OnSpeechHypothesis SpeechHypothesisMsg
  | Stim_OnSpeechFragment SpeechHypothesisMsg
  | Stim_OnSpeechPhrase SpeechPhraseMsg
  | Stim_OnTranslationHypothesis TranslationHypothesisMsg
  | Stim_OnTranslationPhrase TranslationPhraseMsg
  | Stim_OnTranslationSynthesis "byte list" nat
  | Stim_OnTranslationSynthesisEnd SynthesisStatus string
  | Stim_OnTurnStart string
  | Stim_OnTurnEnd
  | Stim_OnError string
  | Stim_OnUserMessage string string string nat

definition returns :: "Adapter \<Rightarrow> ((SPXHR + unit) \<times> Adapter) option" where
  "returns a = Some (Inr (), a)"

fun react :: "Stimulus \<Rightarrow> Adapter \<Rightarrow> ((SPXHR + unit) \<times> Adapter) option" where
  "react Stim_Init a = Some (Init a)"
| "react Stim_Term a = returns (Term a)"
| "react (Stim_SetAdapterMode singleShot) a = returns (SetAdapterMode singleShot a)"
| "react (Stim_SetFormat pformat) a = Some (SetFormat pformat a)"
| "react (Stim_ProcessAudio data sz) a = Option.bind (ProcessAudio data sz a) returns"
| "react (Stim_OnSpeechStartDetected offset) a = returns (OnSpeechStartDetected offset a)"
| "react (Stim_OnSpeechEndDetected offset) a = Option.bind (OnSpeechEndDetected offset a) returns"
| "react (Stim_OnSpeechHypothesis message) a = returns (OnSpeechHypothesis message a)"
| "react (Stim_OnSpeechFragment message) a = returns (OnSpeechFragment message a)"
| "react (Stim_OnSpeechPhrase message) a = returns (OnSpeechPhrase message a)"
| "react (Stim_OnTranslationHypothesis message) a = Some (OnTranslationHypothesis message a)"
| "react (Stim_OnTranslationPhrase message) a = Some (OnTranslationPhrase message a)"
| "react (Stim_OnTranslationSynthesis audioBuffer audioLength) a =
     returns (OnTranslationSynthesis audioBuffer audioLength a)"
| "react (Stim_OnTranslationSynthesisEnd status reason) a =
     Some (OnTranslationSynthesisEnd status reason a)"
| "react (Stim_OnTurnStart tag) a = returns (OnTurnStart tag a)"
| "react Stim_OnTurnEnd a = OnTurnEnd a"
| "react (Stim_OnError error) a = Some (OnError error a)"
| "react (Stim_OnUserMessage path contentType buffer sz) a =
     returns (OnUserMessage path contentType buffer sz a)"

text \<open>
  A run of stimuli, one after the other on the same adapter. A throw leaves the handler; the
  next stimulus finds the adapter as the throw left it.
\<close>

fun run :: "Stimulus list \<Rightarrow> Adapter \<Rightarrow> Adapter option" where
  "run [] a = Some a"
| "run (st # sts) a = Option.bind (react st a) (\<lambda>r. run sts (snd r))"

subsection \<open>Which handlers test the bad-state predicate first\<close>

text \<open>
  The member functions whose first test under the lock is \<^verbatim>\<open>IsBadState()\<close>, read off
  the source. \<^verbatim>\<open>SetFormat\<close> tests \<^verbatim>\<open>IsBadState() && !IsState(Terminating)\<close>;
  \<^verbatim>\<open>OnSpeechEndDetected\<close> and \<^verbatim>\<open>OnTurnEnd\<close> call \<^verbatim>\<open>ChangeState\<close> before the
  test; \<^verbatim>\<open>Init\<close>, \<^verbatim>\<open>Term\<close>, \<^verbatim>\<open>SetAdapterMode\<close>, \<^verbatim>\<open>OnUserMessage\<close> and the
  two synthesis handlers do not test it.
\<close>

fun tests_IsBadState_first :: "Stimulus \<Rightarrow> bool" where
  "tests_IsBadState_first (Stim_SetFormat pformat) = True"
| "tests_IsBadState_first (Stim_ProcessAudio data sz) = True"
| "tests_IsBadState_first (Stim_OnSpeechStartDetected offset) = True"
| "tests_IsBadState_first (Stim_OnSpeechHypothesis message) = True"
| "tests_IsBadState_first (Stim_OnSpeechFragment message) = True"
| "tests_IsBadState_first (Stim_OnSpeechPhrase message) = True"
| "tests_IsBadState_first (Stim_OnTranslationHypothesis message) = True"
| "tests_IsBadState_first (Stim_OnTranslationPhrase message) = True"
| "tests_IsBadState_first (Stim_OnTurnStart tag) = True"
| "tests_IsBadState_first (Stim_OnError error) = True"
| "tests_IsBadState_first st = False"

fun changes_audio_before_test :: "Stimulus \<Rightarrow> bool" where
  "changes_audio_before_test (Stim_OnSpeechEndDetected offset) = True"
| "changes_audio_before_test Stim_OnTurnEnd = True"
| "changes_audio_before_test st = False"

subsection \<open>The payload as a whole, and closed forms of the builder's loops\<close>

text \<open>
  The string \<^verbatim>\<open>speechContext\<close> of \<^verbatim>\<open>UspSendSpeechContext\<close>: the payload built from the
  site's listen-for list and intent triple.
\<close>

definition speech_context_payload :: "Adapter \<Rightarrow> string" where
  "speech_context_payload a =
     (let listenForList = ListenForList (site a);
          listenForJson = GetDgiJsonFromListenForList a listenForList;
          (provider, ident, key) = IntentInfo (site a);
          intentJson = GetLanguageUnderstandingJsonFromIntentInfo a provider ident key
      in GetSpeechContextJson listenForJson intentJson)"

text \<open>
  What the two inner loops of \<^verbatim>\<open>GetDgiJsonFromListenForList\<close> append, written by
  recursion on the list: the elements after the first carry a comma in front.
\<close>

fun items_tail :: "string list \<Rightarrow> string" where
  \<open>items_tail [] = []\<close>
| \<open>items_tail (item # items) = '','' @ ''{"Text":"'' @ item @ ''"}'' @ items_tail items\<close>

fun items_json :: "string list \<Rightarrow> string" where
  \<open>items_json [] = []\<close>
| \<open>items_json (item # items) = ''{"Text":"'' @ item @ ''"}'' @ items_tail items\<close>

fun grammars_tail :: "string list \<Rightarrow> string" where
  \<open>grammars_tail [] = []\<close>
| \<open>grammars_tail (grammar # grammars) = '','' @ ''"'' @ grammar @ ''"'' @ grammars_tail grammars\<close>

fun grammars_json :: "string list \<Rightarrow> string" where
  \<open>grammars_json [] = []\<close>
| \<open>grammars_json (grammar # grammars) = ''"'' @ grammar @ ''"'' @ grammars_tail grammars\<close>

text \<open>
  The intent triple as the payload carries it: a triple with an empty component is not
  emitted.
\<close>

definition emitted_IntentInfo :: "Adapter \<Rightarrow> (string \<times> string \<times> string) option" where
  "emitted_IntentInfo a =
     (case IntentInfo (site a) of
        (provider, ident, key) \<Rightarrow>
          if provider \<noteq> [] \<and> ident \<noteq> [] \<and> key \<noteq> [] then Some (provider, ident, key) else None)"

text \<open>
  A string that a JSON string literal carries as it is: no double quote, no backslash and no
  control character in it.
\<close>

definition json_plain :: "string \<Rightarrow> bool" where
  "json_plain s = list_all (\<lambda>c. c \<noteq> CHR 0x22 \<and> c \<noteq> CHR 0x5C \<and> (32::nat) \<le> of_char c) s"

text \<open>
  The pieces of the payload, named for the proofs: the \<open>ReferenceGrammars\<close> member with what
  precedes it, the members of the \<open>dgi\<close> object, the intent object, and the \<open>intent\<close>
  member with what precedes it.
\<close>

definition grammars_part :: "string \<Rightarrow> string list \<Rightarrow> string" where
  \<open>grammars_part c grammars =
     (if grammars \<noteq> [] then c @ ''"ReferenceGrammars": ['' @ grammars_json grammars @ '']''
      else [])\<close>

definition dgi_body :: "string list \<Rightarrow> string list \<Rightarrow> string" where
  \<open>dgi_body grammars genericItems =
     (if genericItems \<noteq> []
      then ''"Groups": [{"Type":"Generic","Items":['' @ items_json genericItems @ '']}]'' @
           grammars_part '','' grammars
      else grammars_part [] grammars)\<close>

definition intent_object :: "string \<Rightarrow> string \<Rightarrow> string \<Rightarrow> string" where
  \<open>intent_object provider ident key =
     ''{"provider":"'' @ provider @ ''","id":"'' @ ident @ ''","key":"'' @ key @ ''"}''\<close>

definition intent_part :: "string \<Rightarrow> (string \<times> string \<times> string) option \<Rightarrow> string" where
  \<open>intent_part c intent =
     (case intent of
        None \<Rightarrow> []
      | Some (provider, ident, key) \<Rightarrow> c @ ''"intent":'' @ intent_object provider ident key)\<close>

text \<open>
  The inputs on which the payload can be read back: both suppressors off, and every
  listen-for entry and every string of the intent triple plain.
\<close>

definition readable_inputs :: "Adapter \<Rightarrow> bool" where
  "readable_inputs a =
     (\<not> GetBooleanValue (site a) CARBON_INTERNAL_USP_NoDGI False \<and>
      \<not> GetBooleanValue (site a) CARBON_INTERNAL_USP_NoIntentJson False \<and>
      list_all json_plain (ListenForList (site a)) \<and>
      (case IntentInfo (site a) of
         (provider, ident, key) \<Rightarrow> json_plain provider \<and> json_plain ident \<and> json_plain key))"

definition payload_inputs ::
  "Adapter \<Rightarrow> string list \<times> string list \<times> (string \<times> string \<times> string) option" where
  "payload_inputs a =
     (fst (classify_listenForList (ListenForList (site a))),
      snd (classify_listenForList (ListenForList (site a))),
      emitted_IntentInfo a)"

subsection \<open>A reader of the \<^verbatim>\<open>speech.context\<close> payload\<close>

text \<open>
  Modelled from the spec: the adapter only builds the payload, and the service, which reads
  it, is not among the sources. The reader below follows the output shape of section 4.D of
  the specification: the payload is cut into JSON tokens (the six punctuation marks and
  string literals, with white space between them skipped), and the tokens are read as the
  object with the optional members \<open>dgi\<close> (with \<open>Groups\<close> and \<open>ReferenceGrammars\<close>) and
  \<open>intent\<close>. A string literal runs up to the next double quote; as in JSON, a control
  character is not allowed in it, and a backslash would start an escape sequence, which the
  builder never writes on purpose: the reader refuses both. The empty payload, for which no
  message is sent, reads as no grammars, no items and no intent.
\<close>

datatype json_token = LBrace | RBrace | LBracket | RBracket | Colon | Comma | Str string

definition json_space :: "char \<Rightarrow> bool" where
  "json_space c = (c = CHR 0x20 \<or> c = CHR 0x09 \<or> c = CHR 0x0A \<or> c = CHR 0x0D)"

definition json_punctuation :: "char \<Rightarrow> json_token option" where
  "json_punctuation c =
     (if c = CHR ''{'' then Some LBrace
      else if c = CHR ''}'' then Some RBrace
      else if c = CHR ''['' then Some LBracket
      else if c = CHR '']'' then Some RBracket
      else if c = CHR '':'' then Some Colon
      else if c = CHR '','' then Some Comma
      else None)"

text \<open>
  The first argument is \<open>Some lit\<close> inside a string literal, of which \<open>lit\<close> has been
  read, and \<open>None\<close> between tokens.
\<close>

fun json_tokens :: "string option \<Rightarrow> string \<Rightarrow> json_token list option" where
  "json_tokens None [] = Some []"
| "json_tokens (Some lit) [] = None"
| "json_tokens None (c # cs) =
     (if c = CHR 0x22 then json_tokens (Some []) cs
      else if json_space c then json_tokens None cs
      else (case json_punctuation c of
              None \<Rightarrow> None
            | Some t \<Rightarrow> map_option ((#) t) (json_tokens None cs)))"
| "json_tokens (Some lit) (c # cs) =
     (if c = CHR 0x22 then map_option ((#) (Str lit)) (json_tokens None cs)
      else if c = CHR 0x5C \<or> of_char c < (32::nat) then None
      else json_tokens (Some (lit @ [c])) cs)"

fun expect :: "json_token list \<Rightarrow> json_token list \<Rightarrow> json_token list option" where
  "expect [] ts = Some ts"
| "expect (e # es) [] = None"
| "expect (e # es) (t # ts) = (if e = t then expect es ts else None)"

text \<open>The items after the first, up to and including the bracket that closes the array.\<close>

fun read_items_tail :: "json_token list \<Rightarrow> (string list \<times> json_token list) option" where
  "read_items_tail (RBracket # ts) = Some ([], ts)"
| "read_items_tail (Comma # LBrace # Str k # Colon # Str item # RBrace # ts) =
     (if k = ''Text'' then map_option (\<lambda>(items, r). (item # items, r)) (read_items_tail ts)
      else None)"
| "read_items_tail ts = None"

fun read_items :: "json_token list \<Rightarrow> (string list \<times> json_token list) option" where
  "read_items (LBrace # Str k # Colon # Str item # RBrace # ts) =
     (if k = ''Text'' then map_option (\<lambda>(items, r). (item # items, r)) (read_items_tail ts)
      else None)"
| "read_items ts = None"

fun read_grammars_tail :: "json_token list \<Rightarrow> (string list \<times> json_token list) option" where
  "read_grammars_tail (RBracket # ts) = Some ([], ts)"
| "read_grammars_tail (Comma # Str grammar # ts) =
     map_option (\<lambda>(grammars, r). (grammar # grammars, r)) (read_grammars_tail ts)"
| "read_grammars_tail ts = None"

fun read_grammars :: "json_token list \<Rightarrow> (string list \<times> json_token list) option" where
  "read_grammars (Str grammar # ts) =
     map_option (\<lambda>(grammars, r). (grammar # grammars, r)) (read_grammars_tail ts)"
| "read_grammars ts = None"

definition read_Groups :: "json_token list \<Rightarrow> (string list \<times> json_token list) option" where
  "read_Groups ts =
     Option.bind
       (expect [Str ''Groups'', Colon, LBracket, LBrace, Str ''Type'', Colon, Str ''Generic'',
                Comma, Str ''Items'', Colon, LBracket] ts)
       (\<lambda>r. Option.bind (read_items r)
          (\<lambda>(items, r). map_option (Pair items) (expect [RBrace, RBracket] r)))"

definition read_ReferenceGrammars :: "json_token list \<Rightarrow> (string list \<times> json_token list) option" where
  "read_ReferenceGrammars ts =
     Option.bind (expect [Str ''ReferenceGrammars'', Colon, LBracket] ts) read_grammars"

text \<open>The members of the \<open>dgi\<close> object and its closing brace: grammars, items, the rest.\<close>

definition read_dgi :: "json_token list \<Rightarrow> (string list \<times> string list \<times> json_token list) option" where
  "read_dgi ts =
     (case read_Groups ts of
        Some (items, r) \<Rightarrow>
          (case r of
             Comma # r' \<Rightarrow>
               Option.bind (read_ReferenceGrammars r')
                 (\<lambda>(grammars, r). map_option (\<lambda>r. (grammars, items, r)) (expect [RBrace] r))
           | _ \<Rightarrow> map_option (\<lambda>r. ([], items, r)) (expect [RBrace] r))
      | None \<Rightarrow>
          Option.bind (read_ReferenceGrammars ts)
            (\<lambda>(grammars, r). map_option (\<lambda>r. (grammars, [], r)) (expect [RBrace] r)))"

fun read_Str :: "json_token list \<Rightarrow> (string \<times> json_token list) option" where
  "read_Str (Str s # ts) = Some (s, ts)"
| "read_Str ts = None"

definition read_intent :: "json_token list \<Rightarrow> ((string \<times> string \<times> string) \<times> json_token list) option" where
  "read_intent ts =
     Option.bind (expect [LBrace, Str ''provider'', Colon] ts) (\<lambda>r.
     Option.bind (read_Str r) (\<lambda>(provider, r).
     Option.bind (expect [Comma, Str ''id'', Colon] r) (\<lambda>r.
     Option.bind (read_Str r) (\<lambda>(ident, r).
     Option.bind (expect [Comma, Str ''key'', Colon] r) (\<lambda>r.
     Option.bind (read_Str r) (\<lambda>(key, r).
     map_option (Pair (provider, ident, key)) (expect [RBrace] r)))))))"

definition read_intent_member ::
  "json_token list \<Rightarrow> ((string \<times> string \<times> string) option \<times> json_token list) option" where
  "read_intent_member ts =
     Option.bind (expect [Str ''intent'', Colon] ts)
       (\<lambda>r. map_option (\<lambda>(t, r). (Some t, r)) (read_intent r))"

definition read_context ::
  "json_token list \<Rightarrow> (string list \<times> string list \<times> (string \<times> string \<times> string) option) option" where
  "read_context ts =
     Option.bind (expect [LBrace] ts)
       (\<lambda>r. case expect [Str ''dgi'', Colon, LBrace] r of
               Some r \<Rightarrow>
                 Option.bind (read_dgi r)
                   (\<lambda>(grammars, items, r).
                      case r of
                        Comma # r' \<Rightarrow>
                          Option.bind (read_intent_member r')
                            (\<lambda>(t, r). if r = [RBrace] then Some (grammars, items, t) else None)
                      | _ \<Rightarrow> if r = [RBrace] then Some (grammars, items, None) else None)
             | None \<Rightarrow>
                 Option.bind (read_intent_member r)
                   (\<lambda>(t, r). if r = [RBrace] then Some ([], [], t) else None))"

definition parse_speech_context ::
  "string \<Rightarrow> (string list \<times> string list \<times> (string \<times> string \<times> string) option) option" where
  "parse_speech_context payload =
     (if payload = [] then Some ([], [], None)
      else Option.bind (json_tokens None payload) read_context)"

text \<open>The tokens of the pieces of the payload, named for the proofs.\<close>

fun items_tail_tokens :: "string list \<Rightarrow> json_token list" where
  "items_tail_tokens [] = []"
| "items_tail_tokens (item # items) =
     [Comma, LBrace, Str ''Text'', Colon, Str item, RBrace] @ items_tail_tokens items"

fun items_tokens :: "string list \<Rightarrow> json_token list" where
  "items_tokens [] = []"
| "items_tokens (item # items) =
     [LBrace, Str ''Text'', Colon, Str item, RBrace] @ items_tail_tokens items"

fun grammars_tail_tokens :: "string list \<Rightarrow> json_token list" where
  "grammars_tail_tokens [] = []"
| "grammars_tail_tokens (grammar # grammars) =
     [Comma, Str grammar] @ grammars_tail_tokens grammars"

fun grammars_tokens :: "string list \<Rightarrow> json_token list" where
  "grammars_tokens [] = []"
| "grammars_tokens (grammar # grammars) = Str grammar # grammars_tail_tokens grammars"

definition grammars_part_tokens :: "json_token list \<Rightarrow> string list \<Rightarrow> json_token list" where
  "grammars_part_tokens c grammars =
     (if grammars \<noteq> []
      then c @ [Str ''ReferenceGrammars'', Colon, LBracket] @ grammars_tokens grammars @ [RBracket]
      else [])"

definition dgi_body_tokens :: "string list \<Rightarrow> string list \<Rightarrow> json_token list" where
  "dgi_body_tokens grammars genericItems =
     (if genericItems \<noteq> []
      then [Str ''Groups'', Colon, LBracket, LBrace, Str ''Type'', Colon, Str ''Generic'', Comma,
            Str ''Items'', Colon, LBracket] @ items_tokens genericItems @
           [RBracket, RBrace, RBracket] @ grammars_part_tokens [Comma] grammars
      else grammars_part_tokens [] grammars)"

definition intent_object_tokens :: "string \<Rightarrow> string \<Rightarrow> string \<Rightarrow> json_token list" where
  "intent_object_tokens provider ident key =
     [LBrace, Str ''provider'', Colon, Str provider, Comma, Str ''id'', Colon, Str ident, Comma,
      Str ''key'', Colon, Str key, RBrace]"

definition intent_part_tokens ::
  "json_token list \<Rightarrow> (string \<times> string \<times> string) option \<Rightarrow> json_token list" where
  "intent_part_tokens c intent =
     (case intent of
        None \<Rightarrow> []
      | Some (provider, ident, key) \<Rightarrow>
          c @ [Str ''intent'', Colon] @ intent_object_tokens provider ident key)"

subsection \<open>Concrete inputs\<close>

definition example_Site :: Site where
  "example_Site =
     \<lparr>string_values = [g_SPEECH_SubscriptionKey \<mapsto> ''key''], boolean_values = Map.empty,
      ListenForList = [], IntentInfo = ([], [], [])\<rparr>"

definition example_Adapter :: Adapter where
  "example_Adapter =
     CSpxUspRecoEngineAdapter example_Site True 600 True RecognitionMode_Interactive"

text \<open>
  A 16 kHz, 16-bit, mono PCM format; a site with the intent triple \<open>(p, i, k)\<close>; an adapter
  on that site in interactive, single-shot mode, with one preferred millisecond (a frame of
  32 bytes).
\<close>

definition pcm16 :: WAVEFORMATEX where
  "pcm16 =
     \<lparr>wFormatTag = 1, nChannels = 1, nSamplesPerSec = 16000, nAvgBytesPerSec = 32000,
      nBlockAlign = 2, wBitsPerSample = 16, cbSize = 0, extra_bytes = []\<rparr>"

definition intent_Site :: Site where
  "intent_Site = example_Site\<lparr>IntentInfo := (''p'', ''i'', ''k'')\<rparr>"

definition intent_Adapter :: Adapter where
  "intent_Adapter =
     CSpxUspRecoEngineAdapter intent_Site True 1 True RecognitionMode_Interactive"

definition play_music :: SpeechPhraseMsg where
  "play_music =
     \<lparr>phrase_json = ''{}'', phrase_offset = 7, phrase_duration = 10,
      recognitionStatus = RecognitionStatus_Success, displayText = ''play music''\<rparr>"

definition stop_music :: SpeechPhraseMsg where
  "stop_music =
     \<lparr>phrase_json = ''{}'', phrase_offset = 20, phrase_duration = 5,
      recognitionStatus = RecognitionStatus_Success, displayText = ''stop''\<rparr>"

text \<open>The start of a turn up to the first phrase, which is held back for its intent.\<close>

definition until_phrase :: "Stimulus list" where
  "until_phrase =
     [Stim_Init, Stim_SetAdapterMode True, Stim_SetFormat (Some pcm16),
      Stim_ProcessAudio [1, 2, 3, 4] 4, Stim_OnTurnStart ''svc1'',
      Stim_OnSpeechPhrase play_music]"

text \<open>Scenario S2 of the specification: the intent response arrives before the turn ends.\<close>

definition scenario_S2 :: "Stimulus list" where
  "scenario_S2 =
     until_phrase @
     [Stim_OnUserMessage ''response'' ''application/json'' ''{luis}'' 6, Stim_OnTurnEnd]"

text \<open>The final results among the calls on the site.\<close>

fun final_results :: "SiteCall list \<Rightarrow> (nat \<times> RecoResult) list" where
  "final_results [] = []"
| "final_results (FireAdapterResult_FinalResult offset result # cs) =
     (offset, result) # final_results cs"
| "final_results (c # cs) = final_results cs"

text \<open>
  A site with a listen-for list (one generic item, one reference grammar) whose \<open>dgi\<close>
  branch is switched off, and an adapter on it with an open session.
\<close>

definition nodgi_Site :: Site where
  "nodgi_Site =
     intent_Site\<lparr>boolean_values := [CARBON_INTERNAL_USP_NoDGI \<mapsto> True],
                 ListenForList := [''play'', ''{luis:music}'']\<rparr>"

definition nodgi_Adapter :: Adapter where
  "nodgi_Adapter =
     (CSpxUspRecoEngineAdapter nodgi_Site True 1 True RecognitionMode_Interactive)
       \<lparr>m_handle := Some (new_Client EndpointType_BingSpeech)\<rparr>"

text \<open>Forty bytes of audio, \<open>1\<close> to \<open>40\<close>, and the audio writes among the transport calls.\<close>

definition audio40 :: "byte list" where
  "audio40 = map of_nat [1..<41]"

fun audio_writes :: "UspCall list \<Rightarrow> byte list list" where
  "audio_writes [] = []"
| "audio_writes (WriteAudio bytes # cs) = bytes # audio_writes cs"
| "audio_writes (c # cs) = audio_writes cs"

text \<open>
  A site with a generic item, a reference grammar and a complete intent triple, and two
  sites whose listen-for lists differ while their payloads are the same.
\<close>

definition listen_Adapter :: Adapter where
  "listen_Adapter =
     CSpxUspRecoEngineAdapter
       (intent_Site\<lparr>ListenForList := [''play'', ''{luis:music}'']\<rparr>)
       True 1 True RecognitionMode_Interactive"

definition two_items_Adapter :: Adapter where
  "two_items_Adapter =
     CSpxUspRecoEngineAdapter (example_Site\<lparr>ListenForList := [''a'', ''b'']\<rparr>)
       True 1 True RecognitionMode_Interactive"

definition quoted_item_Adapter :: Adapter where
  \<open>quoted_item_Adapter =
     CSpxUspRecoEngineAdapter (example_Site\<lparr>ListenForList := [''a"},{"Text":"b'']\<rparr>)
       True 1 True RecognitionMode_Interactive\<close>

definition partial_intent_Adapter :: Adapter where
  "partial_intent_Adapter =
     CSpxUspRecoEngineAdapter (example_Site\<lparr>IntentInfo := (''p'', [], ''k'')\<rparr>)
       True 1 True RecognitionMode_Interactive"

text \<open>A site whose one listen-for entry is a backslash.\<close>

definition backslash_item_Adapter :: Adapter where
  "backslash_item_Adapter =
     CSpxUspRecoEngineAdapter (example_Site\<lparr>ListenForList := [[CHR 0x5C]]\<rparr>)
       True 1 True RecognitionMode_Interactive"

(*PROPERTIES*)
section \<open>Properties\<close>

subsection \<open>The transition primitive\<close>

text \<open>
  Claim C2. \<^verbatim>\<open>ChangeState(from_audio, from_usp, to_audio, to_usp)\<close> returns true exactly when
  the current pair is \<open>(from_audio, from_usp)\<close> and \<open>from_usp\<close> is none of Error, Zombie,
  Terminating, or the protocol state stays the same, or the step is Error to Terminating or
  Terminating to Zombie. When it returns true the adapter is the old one with the pair set to
  \<open>(to_audio, to_usp)\<close>; when it returns false the adapter is unchanged.
\<close>

theorem ChangeState_commits_iff:
  "fst (ChangeState fromAudioState fromUspState toAudioState toUspState a) =
     (m_audioState a = fromAudioState \<and> m_uspState a = fromUspState \<and>
      (fromUspState \<notin> {UspState_Error, UspState_Zombie, UspState_Terminating} \<or>
       fromUspState = toUspState \<or>
       (fromUspState = UspState_Error \<and> toUspState = UspState_Terminating) \<or>
       (fromUspState = UspState_Terminating \<and> toUspState = UspState_Zombie))) \<and>
   (fst (ChangeState fromAudioState fromUspState toAudioState toUspState a) \<longrightarrow>
      snd (ChangeState fromAudioState fromUspState toAudioState toUspState a) =
        a\<lparr>m_audioState := toAudioState, m_uspState := toUspState\<rparr>) \<and>
   (\<not> fst (ChangeState fromAudioState fromUspState toAudioState toUspState a) \<longrightarrow>
      snd (ChangeState fromAudioState fromUspState toAudioState toUspState a) = a)"
  by (auto simp: ChangeState_def)

theorem ChangeState_commits_iff_witness:
  "fst (ChangeState AudioState_Idle UspState_Idle AudioState_Ready UspState_Idle example_Adapter) \<and>
   snd (ChangeState AudioState_Idle UspState_Idle AudioState_Ready UspState_Idle example_Adapter) =
     example_Adapter\<lparr>m_audioState := AudioState_Ready, m_uspState := UspState_Idle\<rparr> \<and>
   \<not> fst (ChangeState AudioState_Idle UspState_Zombie AudioState_Idle UspState_Idle
            (example_Adapter\<lparr>m_uspState := UspState_Zombie\<rparr>)) \<and>
   snd (ChangeState AudioState_Idle UspState_Zombie AudioState_Idle UspState_Idle
            (example_Adapter\<lparr>m_uspState := UspState_Zombie\<rparr>)) =
     example_Adapter\<lparr>m_uspState := UspState_Zombie\<rparr>"
  using ChangeState_commits_iff [of AudioState_Idle UspState_Idle AudioState_Ready UspState_Idle example_Adapter]
    ChangeState_commits_iff [of AudioState_Idle UspState_Zombie AudioState_Idle UspState_Idle
       "example_Adapter\<lparr>m_uspState := UspState_Zombie\<rparr>"]
  by (simp add: example_Adapter_def CSpxUspRecoEngineAdapter_def)

subsection \<open>A phrase that arrives while an intent is pending\<close>

text \<open>
  Claim C10. A speech phrase that arrives while the protocol state is WaitingForIntent is
  discarded: the adapter is left exactly as it was, so there is no state transition, no call
  on the site, and the slot keeps the phrase it held. (The handler does not look at the
  recognition status or at \<open>expect_intent_response\<close> to get there.)
\<close>

theorem OnSpeechPhrase_WaitingForIntent_discarded:
  "m_uspState a = UspState_WaitingForIntent \<Longrightarrow> OnSpeechPhrase message a = a"
  by (simp add: OnSpeechPhrase_def IsBadState_def ChangeState_Usp_def ChangeState_def)

theorem OnSpeechPhrase_WaitingForIntent_discarded_witness:
  "\<exists>a. run until_phrase intent_Adapter = Some a \<and>
       m_uspState a = UspState_WaitingForIntent \<and>
       m_finalResultMessageToFireLater a = play_music \<and>
       OnSpeechPhrase stop_music a = a"
proof -
  have "map_option (\<lambda>a. (m_uspState a, m_finalResultMessageToFireLater a))
          (run until_phrase intent_Adapter) = Some (UspState_WaitingForIntent, play_music)"
    by code_simp
  then obtain a where a: "run until_phrase intent_Adapter = Some a"
    "m_uspState a = UspState_WaitingForIntent" "m_finalResultMessageToFireLater a = play_music"
    by auto
  from OnSpeechPhrase_WaitingForIntent_discarded [OF a(2), of stop_music] a show ?thesis
    by simp
qed

subsection \<open>One final result per held phrase\<close>

lemma OnUserMessage_keeps_WaitingForIntent:
  "m_uspState (OnUserMessage path contentType buffer sz a) = m_uspState a \<and>
   m_audioState (OnUserMessage path contentType buffer sz a) = m_audioState a"
  by (simp add: OnUserMessage_def FireFinalResultLater_WaitingForIntentComplete_def
      FireFinalResultNow_def call_site_def Let_def)

text \<open>
  Claim C1 says that a phrase held back for its intent gets exactly one final result, on the
  intent response or at the end of the turn, never both. \<^verbatim>\<open>OnUserMessage\<close> fires the
  final result but leaves the protocol state at WaitingForIntent (unlike
  \<^verbatim>\<open>OnSpeechFragment\<close> and \<^verbatim>\<open>OnTurnEnd\<close>, which go through WaitingForIntent2), so the
  end of the turn fires a second final result, built from the emptied slot. In scenario S2
  the site receives two final results: the phrase with its intent payload, then an empty one.
\<close>

theorem intent_response_then_turn_end_fires_twice:
  "map_option (final_results \<circ> site_calls) (run scenario_S2 intent_Adapter) =
   Some [(7, (CreateFinalResult ''play music'' ResultType_Speech)
               \<lparr>RESULT_Json := Some ''{}'', RESULT_LanguageUnderstandingJson := Some ''{luis}''\<rparr>),
         (0, (CreateFinalResult [] ResultType_Speech)\<lparr>RESULT_Json := Some []\<rparr>)]"
  by code_simp

subsection \<open>After \<^verbatim>\<open>Term\<close>\<close>

lemma OnTranslationSynthesis_calls_site:
  "site_calls (OnTranslationSynthesis audioBuffer audioLength a) =
     site_calls a @
     [FireAdapterResult_TranslationSynthesis
        ((CreateFinalResult [] ResultType_TranslationSynthesis)
           \<lparr>TranslationSynthesisResult :=
              Some (TranslationSynthesisStatus_Success, take audioLength audioBuffer, [])\<rparr>)]"
  by (simp add: OnTranslationSynthesis_def call_site_def)

text \<open>
  Claim C4 says that after \<^verbatim>\<open>Term\<close> no stimulus fires a site callback.
  \<^verbatim>\<open>OnTranslationSynthesis\<close> (like \<^verbatim>\<open>OnTranslationSynthesisEnd\<close>) has no state test
  at all, and \<^verbatim>\<open>OnTurnEnd\<close> fires \<^verbatim>\<open>AdapterRequestingAudioIdle\<close> without the
  bad-state test that \<^verbatim>\<open>OnSpeechEndDetected\<close> makes at the same place. With the adapter
  terminated in the middle of a single-shot turn (state Zombie, one site call so far), a
  synthesis event and a turn end each add a call on the site.
\<close>

theorem Zombie_still_calls_site:
  "map_option (\<lambda>a. (m_uspState a, site_calls a))
     (run [Stim_SetFormat (Some pcm16), Stim_ProcessAudio [1, 2, 3, 4] 4, Stim_Term] intent_Adapter) =
     Some (UspState_Zombie, [AdapterStartingTurn]) \<and>
   map_option site_calls
     (run [Stim_SetFormat (Some pcm16), Stim_ProcessAudio [1, 2, 3, 4] 4, Stim_Term,
           Stim_OnTranslationSynthesis [5, 6] 2] intent_Adapter) =
     Some [AdapterStartingTurn,
           FireAdapterResult_TranslationSynthesis
             ((CreateFinalResult [] ResultType_TranslationSynthesis)
                \<lparr>TranslationSynthesisResult := Some (TranslationSynthesisStatus_Success, [5, 6], [])\<rparr>)] \<and>
   map_option site_calls
     (run [Stim_SetFormat (Some pcm16), Stim_ProcessAudio [1, 2, 3, 4] 4, Stim_Term,
           Stim_OnTurnEnd] intent_Adapter) =
     Some [AdapterStartingTurn, AdapterRequestingAudioIdle]"
  by code_simp

subsection \<open>When the session is opened\<close>

lemma UspInitialize_cases:
  assumes "m_handle a = None" "UspInitialize a = (r, a')"
  shows "m_audioState a' = m_audioState a \<and> m_uspState a' = m_uspState a \<and>
         m_format a' = m_format a \<and>
         m_servicePreferedBufferSizeSendingNow a' = m_servicePreferedBufferSizeSendingNow a \<and>
         (case r of
            Inr u \<Rightarrow> \<exists>client. m_handle a' = Some client \<and> usp_calls a' = usp_calls a @ [Connect client]
          | Inl e \<Rightarrow> m_handle a' = None \<and> usp_calls a' = usp_calls a)"
  using assms
  by (auto simp: UspInitialize_def SetUspEndpoint_def SetUspRecoMode_def SetUspAuthentication_def
        Let_def call_usp_def split: if_splits prod.splits sum.splits)

lemma SetFormat_None_no_transport:
  "usp_calls (snd (SetFormat None a)) = usp_calls a \<and> m_handle (snd (SetFormat None a)) = m_handle a"
  by (simp add: SetFormat_def ChangeState_toAudio_def ChangeState_def call_site_def)

text \<open>
  Claim C5 says that \<^verbatim>\<open>SetFormat\<close> with a format leaves the session handle absent and
  that the session is opened on the first audio. In the source
  \<^verbatim>\<open>PrepareAudioReadyState\<close> calls \<^verbatim>\<open>EnsureUspInit\<close>, which connects: after
  \<^verbatim>\<open>SetFormat(fmt)\<close> on a new adapter the handle is present, and the transport has been
  called by the time \<^verbatim>\<open>SetFormat(nullptr)\<close> returns.
\<close>

theorem SetFormat_opens_session_counterexample:
  "m_audioState example_Adapter = AudioState_Idle \<and> m_uspState example_Adapter = UspState_Idle \<and>
   m_handle example_Adapter = None \<and> usp_calls example_Adapter = [] \<and>
   m_handle (snd (SetFormat (Some pcm16) example_Adapter)) \<noteq> None \<and>
   usp_calls (snd (SetFormat None (snd (SetFormat (Some pcm16) example_Adapter)))) \<noteq> []"
  by code_simp

text \<open>
  Claim C5, amended. \<^verbatim>\<open>SetFormat\<close> with a well-formed format, in state (Idle, Idle) with
  no session, moves the audio state to Ready, stores the format, sets the frame size to 0 and
  opens the transport session at once: when the client configuration is accepted the handle
  is present and one \<^verbatim>\<open>Connect\<close> has been issued; when it is rejected the error is thrown,
  the handle stays absent and nothing has been issued. A \<^verbatim>\<open>SetFormat(nullptr)\<close> after it
  issues no transport call of its own and leaves the handle as it is.
\<close>

theorem SetFormat_opens_session:
  assumes "m_audioState a = AudioState_Idle" and "m_uspState a = UspState_Idle"
    and "m_handle a = None" and "length (extra_bytes format) = unat (cbSize format)"
  shows "\<exists>r a'. SetFormat (Some format) a = (r, a') \<and>
           m_audioState a' = AudioState_Ready \<and> m_uspState a' = UspState_Idle \<and>
           m_format a' = Some format \<and> m_servicePreferedBufferSizeSendingNow a' = 0 \<and>
           (case r of
              Inr u \<Rightarrow> \<exists>client. m_handle a' = Some client \<and>
                                usp_calls a' = usp_calls a @ [Connect client]
            | Inl e \<Rightarrow> m_handle a' = None \<and> usp_calls a' = usp_calls a) \<and>
           usp_calls (snd (SetFormat None a')) = usp_calls a' \<and>
           m_handle (snd (SetFormat None a')) = m_handle a'"
proof -
  let ?a1 = "a\<lparr>m_audioState := AudioState_Ready, m_uspState := UspState_Idle, m_format := Some format,
               m_servicePreferedBufferSizeSendingNow := 0\<rparr>"
  obtain r a' where i: "UspInitialize ?a1 = (r, a')"
    by (cases "UspInitialize ?a1") auto
  have s: "SetFormat (Some format) a = (r, a')"
    using assms i
    by (simp add: SetFormat_def IsBadState_def ChangeState_Audio_def ChangeState_def
        PrepareFirstAudioReadyState_def PrepareAudioReadyState_def EnsureUspInit_def)
  have "m_handle ?a1 = None" using assms by simp
  from UspInitialize_cases [OF this i] s SetFormat_None_no_transport [of a'] show ?thesis
    by (cases r) auto
qed

theorem SetFormat_opens_session_witness:
  "m_audioState example_Adapter = AudioState_Idle \<and> m_uspState example_Adapter = UspState_Idle \<and>
   m_handle example_Adapter = None \<and> length (extra_bytes pcm16) = unat (cbSize pcm16) \<and>
   fst (SetFormat (Some pcm16) example_Adapter) = Inr () \<and>
   m_audioState (snd (SetFormat (Some pcm16) example_Adapter)) = AudioState_Ready \<and>
   m_format (snd (SetFormat (Some pcm16) example_Adapter)) = Some pcm16 \<and>
   (\<exists>client. m_handle (snd (SetFormat (Some pcm16) example_Adapter)) = Some client \<and>
      usp_calls (snd (SetFormat (Some pcm16) example_Adapter)) = [Connect client])"
proof -
  have h: "m_audioState example_Adapter = AudioState_Idle" "m_uspState example_Adapter = UspState_Idle"
    "m_handle example_Adapter = None" "length (extra_bytes pcm16) = unat (cbSize pcm16)"
    "usp_calls example_Adapter = []"
    by (simp_all add: example_Adapter_def CSpxUspRecoEngineAdapter_def pcm16_def)
  have r: "fst (SetFormat (Some pcm16) example_Adapter) = Inr ()"
    by code_simp
  from SetFormat_opens_session [OF h(1-4)] obtain r' a' where
    s: "SetFormat (Some pcm16) example_Adapter = (r', a')"
    and p: "m_audioState a' = AudioState_Ready" "m_format a' = Some pcm16"
    and c: "case r' of
              Inr u \<Rightarrow> \<exists>client. m_handle a' = Some client \<and>
                                usp_calls a' = usp_calls example_Adapter @ [Connect client]
            | Inl e \<Rightarrow> m_handle a' = None \<and> usp_calls a' = usp_calls example_Adapter"
    by blast
  from r s have "r' = Inr ()" by simp
  with c h(5) have "\<exists>client. m_handle a' = Some client \<and> usp_calls a' = [Connect client]"
    by simp
  with h r s p show ?thesis by simp
qed

subsection \<open>Stimuli in a bad state\<close>

lemma UspWrite_Buffered_loop_flush:
  "UspWrite_Buffered_loop True buffer 0 a =
     Some ((UspWrite_Actual (buffer_get a) (m_bytesInBuffer a - m_bytesLeftInBuffer a) a)
             \<lparr>m_buffer := None, m_bytesInBuffer := 0, m_ptrIntoBuffer := None,
              m_bytesLeftInBuffer := 0\<rparr>)"
  by (subst UspWrite_Buffered_loop.simps) (simp add: Let_def)

lemma UspWrite_Flush_returns:
  "\<exists>a'. UspWrite_Flush a = Some a' \<and> m_uspState a' = m_uspState a \<and>
        m_audioState a' = m_audioState a \<and> site_calls a' = site_calls a"
  by (simp add: UspWrite_Flush_def UspWrite_Buffered_def UspWrite_Buffered_loop_flush Let_def
      call_usp_def UspWrite_Actual_def)

lemma OnSpeechEndDetected_bad:
  assumes "IsBadState a"
  shows "\<exists>a'. OnSpeechEndDetected offset a = Some a' \<and> m_uspState a' = m_uspState a"
proof -
  obtain b a1 where c:
    "(if m_singleShot a then ChangeState_Audio AudioState_Sending AudioState_Stopping a
      else (False, a)) = (b, a1)"
    by force
  have u: "m_uspState a1 = m_uspState a"
    using c by (auto simp: ChangeState_Audio_def ChangeState_def split: if_splits)
  then have bad: "IsBadState a1"
    using assms by (simp add: IsBadState_def)
  obtain a2 where f: "UspWrite_Flush a1 = Some a2" "m_uspState a2 = m_uspState a1"
    using UspWrite_Flush_returns [of a1] by blast
  show ?thesis
    using c u bad f by (auto simp: OnSpeechEndDetected_def IsBadState_def call_site_def)
qed

lemma OnTurnEnd_bad:
  assumes "IsBadState a"
  shows "\<exists>a'. OnTurnEnd a = Some (Inr (), a') \<and> m_uspState a' = m_uspState a"
proof -
  obtain b1 a1 where c1:
    "(if \<not> m_singleShot a then ChangeState_Audio AudioState_Sending AudioState_Ready a
      else (False, a)) = (b1, a1)"
    by force
  have u1: "m_uspState a1 = m_uspState a" "m_singleShot a1 = m_singleShot a"
    using c1 by (auto simp: ChangeState_Audio_def ChangeState_def split: if_splits)
  obtain b2 a2 where c2:
    "(if m_singleShot a1 then ChangeState_Audio AudioState_Sending AudioState_Stopping a1
      else (False, a1)) = (b2, a2)"
    by force
  have u2: "m_uspState a2 = m_uspState a"
    using c2 u1 by (auto simp: ChangeState_Audio_def ChangeState_def split: if_splits)
  then have bad: "IsBadState a2"
    using assms by (simp add: IsBadState_def)
  obtain a3 where f: "UspWrite_Flush a2 = Some a3" "m_uspState a3 = m_uspState a2"
    using UspWrite_Flush_returns [of a2] by blast
  show ?thesis
    using c1 c2 u2 bad f by (auto simp: OnTurnEnd_def OnTurnEnd_unlocked_def call_site_def)
qed

text \<open>
  Claim C6 says that every ingress operation and every event handler tests the bad-state
  predicate before any transition and drops the stimulus with the state pair unchanged.
  \<^verbatim>\<open>Term\<close> does not: an adapter that a service error has put into Error is taken by
  \<^verbatim>\<open>Term\<close> through Terminating to Zombie, which is what \<^verbatim>\<open>ChangeState\<close> allows these
  two steps for.
\<close>

theorem Term_in_bad_state_counterexample:
  "IsBadState (snd (OnError ''connection lost'' example_Adapter)) \<and>
   m_uspState (snd (OnError ''connection lost'' example_Adapter)) = UspState_Error \<and>
   m_uspState (Term (snd (OnError ''connection lost'' example_Adapter))) = UspState_Zombie"
  by code_simp

text \<open>
  The same happens on the audio axis in the two handlers that call \<^verbatim>\<open>ChangeState\<close> before
  the test: in (Sending, Error) a single-shot adapter is moved to (Stopping, Error) by a
  speech-end event.
\<close>

lemma OnSpeechEndDetected_changes_audio_in_Error:
  "map_option (\<lambda>a. (m_audioState a, m_uspState a))
     (OnSpeechEndDetected 0
        (example_Adapter\<lparr>m_audioState := AudioState_Sending, m_uspState := UspState_Error\<rparr>)) =
   Some (AudioState_Stopping, UspState_Error)"
  by code_simp

text \<open>
  Claim C6, amended. When the bad-state predicate holds, every ingress operation and every
  service event terminates (it returns or throws), and
  \<^item> none of them except \<^verbatim>\<open>Term\<close> changes the protocol state; \<^verbatim>\<open>Term\<close> ends in Zombie and
    keeps the audio state;
  \<^item> none of them changes the audio state, with two reservations:
    \<^verbatim>\<open>SetFormat(nullptr)\<close> during Terminating is accepted by an explicit test, and about
    the audio state after \<^verbatim>\<open>OnSpeechEndDetected\<close> and \<^verbatim>\<open>OnTurnEnd\<close> nothing is said;
  \<^item> the handlers whose first test is the predicate (\<^verbatim>\<open>SetFormat\<close> outside that one case,
    \<^verbatim>\<open>ProcessAudio\<close>, speech start, hypothesis, fragment, phrase, the two translation text
    events, turn start, error) drop the stimulus: they do not throw and leave the whole
    adapter as it was.
\<close>

theorem bad_state_reaction:
  assumes "IsBadState a"
  shows "\<exists>r a'. react st a = Some (r, a') \<and>
           (st \<noteq> Stim_Term \<longrightarrow> m_uspState a' = m_uspState a) \<and>
           (st = Stim_Term \<longrightarrow> m_uspState a' = UspState_Zombie \<and> m_audioState a' = m_audioState a) \<and>
           (st \<noteq> Stim_Term \<and> \<not> changes_audio_before_test st \<and>
            \<not> (st = Stim_SetFormat None \<and> m_uspState a = UspState_Terminating) \<longrightarrow>
              m_audioState a' = m_audioState a) \<and>
           (tests_IsBadState_first st \<and>
            \<not> (st = Stim_SetFormat None \<and> m_uspState a = UspState_Terminating) \<longrightarrow>
              r = Inr () \<and> a' = a)"
proof (cases st)
  case (Stim_OnSpeechEndDetected offset)
  then show ?thesis
    using OnSpeechEndDetected_bad [OF assms, of offset] by (auto simp: returns_def)
next
  case Stim_OnTurnEnd
  then show ?thesis
    using OnTurnEnd_bad [OF assms] by auto
next
  case Stim_Term
  then show ?thesis
    using assms
    by (auto simp: returns_def Term_def IsBadState_def ChangeState_toUsp_def ChangeState_def
        handle_reset_def call_usp_def)
next
  case (Stim_SetFormat pformat)
  then show ?thesis
    using assms
    by (cases pformat)
       (auto simp: SetFormat_def IsBadState_def ChangeState_Audio_def ChangeState_toAudio_def
          ChangeState_def call_site_def)
qed (use assms in \<open>auto simp: returns_def Init_def SetAdapterMode_def ProcessAudio_def
      OnSpeechStartDetected_def OnSpeechHypothesis_def OnSpeechFragment_def OnSpeechPhrase_def
      OnTranslationHypothesis_def OnTranslationPhrase_def OnTranslationSynthesis_def
      OnTranslationSynthesisEnd_def OnTurnStart_def OnError_def OnUserMessage_def call_site_def
      IsBadState_def Let_def split: SynthesisStatus.splits\<close>)

theorem bad_state_reaction_witness:
  "IsBadState (example_Adapter\<lparr>m_uspState := UspState_Error\<rparr>) \<and>
   react (Stim_OnSpeechPhrase play_music) (example_Adapter\<lparr>m_uspState := UspState_Error\<rparr>) =
     Some (Inr (), example_Adapter\<lparr>m_uspState := UspState_Error\<rparr>) \<and>
   (\<exists>r a'. react Stim_Term (example_Adapter\<lparr>m_uspState := UspState_Error\<rparr>) = Some (r, a') \<and>
      m_uspState a' = UspState_Zombie \<and> m_audioState a' = AudioState_Idle)"
proof -
  have b: "IsBadState (example_Adapter\<lparr>m_uspState := UspState_Error\<rparr>)"
    by (simp add: IsBadState_def)
  have i: "m_audioState (example_Adapter\<lparr>m_uspState := UspState_Error\<rparr>) = AudioState_Idle"
    by (simp add: example_Adapter_def CSpxUspRecoEngineAdapter_def)
  from bad_state_reaction [OF b, of "Stim_OnSpeechPhrase play_music"]
    bad_state_reaction [OF b, of Stim_Term] b i
  show ?thesis by auto
qed

subsection \<open>The \<^verbatim>\<open>speech.context\<close> message\<close>

lemma intentJson_empty_iff:
  "(GetLanguageUnderstandingJsonFromIntentInfo a provider ident key \<noteq> []) =
     (provider \<noteq> [] \<and> ident \<noteq> [] \<and> key \<noteq> [] \<and>
      \<not> GetBooleanValue (site a) CARBON_INTERNAL_USP_NoIntentJson False)"
  by (simp add: GetLanguageUnderstandingJsonFromIntentInfo_def Let_def)

lemma intentJson_shape:
  \<open>GetLanguageUnderstandingJsonFromIntentInfo a provider ident key \<noteq> [] \<Longrightarrow>
   GetLanguageUnderstandingJsonFromIntentInfo a provider ident key =
     ''{"provider":"'' @ provider @ ''","id":"'' @ ident @ ''","key":"'' @ key @ ''"}''\<close>
  by (simp add: GetLanguageUnderstandingJsonFromIntentInfo_def Let_def split: if_splits)

lemma dgiJson_suppressed:
  "GetBooleanValue (site a) CARBON_INTERNAL_USP_NoDGI False \<Longrightarrow>
   GetDgiJsonFromListenForList a listenForList = []"
  by (simp add: GetDgiJsonFromListenForList_def Let_def)

lemma GetSpeechContextJson_shape:
  \<open>GetSpeechContextJson dgiJson intentJson =
     (if dgiJson = [] \<and> intentJson = [] then []
      else ''{'' @ (if dgiJson \<noteq> [] then ''"dgi":'' @ dgiJson else []) @
           (if dgiJson \<noteq> [] \<and> intentJson \<noteq> [] then '','' else []) @
           (if intentJson \<noteq> [] then ''"intent":'' @ intentJson else []) @ ''}'')\<close>
  by (simp add: GetSpeechContextJson_def Let_def)

lemma GetSpeechContextJson_empty_iff:
  "(GetSpeechContextJson dgiJson intentJson \<noteq> []) = (dgiJson \<noteq> [] \<or> intentJson \<noteq> [])"
  by (simp add: GetSpeechContextJson_def Let_def)

lemma UspSendSpeechContext_effect:
  "UspSendSpeechContext a =
     (let dgiJson = GetDgiJsonFromListenForList a (ListenForList (site a));
          intentJson = GetLanguageUnderstandingJsonFromIntentInfo a (fst (IntentInfo (site a)))
                         (fst (snd (IntentInfo (site a)))) (snd (snd (IntentInfo (site a))));
          contextJson = GetSpeechContextJson dgiJson intentJson;
          a' = a\<lparr>m_expectIntentResponse := (intentJson \<noteq> [])\<rparr>
      in if contextJson \<noteq> [] \<and> m_uspState a \<noteq> UspState_Terminating \<and>
            m_uspState a \<noteq> UspState_Zombie \<and> m_handle a \<noteq> None
         then a'\<lparr>usp_calls := usp_calls a @ [SendMessage ''speech.context'' contextJson]\<rparr>
         else a')"
  by (simp add: UspSendSpeechContext_def Let_def case_prod_beta UspSendMessage_def call_usp_def
      GetLanguageUnderstandingJsonFromIntentInfo_def GetDgiJsonFromListenForList_def)

text \<open>
  Claim C7. With \<open>(provider, id, key)\<close> the site's intent triple, \<open>dgiJson\<close> and
  \<open>intentJson\<close> the two payloads and \<open>contextJson\<close> the serialized message:
  the intent payload is non-empty exactly when the three strings are non-empty and
  \<open>no_intent_json\<close> is false, and it is then the object of the three; \<open>no_dgi\<close> blanks the
  \<open>dgi\<close> payload; the message is empty when both payloads are, and otherwise an object
  that holds the \<open>dgi\<close> branch exactly when that payload is non-empty and the \<open>intent\<close>
  branch exactly when that payload is non-empty; \<^verbatim>\<open>UspSendSpeechContext\<close> hands the message
  to \<^verbatim>\<open>UspSendMessage\<close> exactly when a branch is non-empty (and the session facade issues
  the transport call while the session is open and not terminating); and
  \<open>expect_intent_response\<close> becomes "the intent payload is non-empty".
\<close>

theorem speech_context_branches:
  \<open>let (provider, ident, key) = IntentInfo (site a);
       noDGI = GetBooleanValue (site a) CARBON_INTERNAL_USP_NoDGI False;
       noIntentJson = GetBooleanValue (site a) CARBON_INTERNAL_USP_NoIntentJson False;
       dgiJson = GetDgiJsonFromListenForList a (ListenForList (site a));
       intentJson = GetLanguageUnderstandingJsonFromIntentInfo a provider ident key;
       contextJson = GetSpeechContextJson dgiJson intentJson;
       live = (m_uspState a \<noteq> UspState_Terminating \<and> m_uspState a \<noteq> UspState_Zombie \<and>
               m_handle a \<noteq> None)
   in ((intentJson \<noteq> []) = (provider \<noteq> [] \<and> ident \<noteq> [] \<and> key \<noteq> [] \<and> \<not> noIntentJson)) \<and>
      (intentJson \<noteq> [] \<longrightarrow>
         intentJson = ''{"provider":"'' @ provider @ ''","id":"'' @ ident @ ''","key":"'' @ key @ ''"}'') \<and>
      (noDGI \<longrightarrow> dgiJson = []) \<and>
      contextJson =
        (if dgiJson = [] \<and> intentJson = [] then []
         else ''{'' @ (if dgiJson \<noteq> [] then ''"dgi":'' @ dgiJson else []) @
              (if dgiJson \<noteq> [] \<and> intentJson \<noteq> [] then '','' else []) @
              (if intentJson \<noteq> [] then ''"intent":'' @ intentJson else []) @ ''}'') \<and>
      UspSendSpeechContext a =
        (if dgiJson \<noteq> [] \<or> intentJson \<noteq> []
         then UspSendMessage ''speech.context'' contextJson
                (a\<lparr>m_expectIntentResponse := (intentJson \<noteq> [])\<rparr>)
         else a\<lparr>m_expectIntentResponse := (intentJson \<noteq> [])\<rparr>) \<and>
      usp_calls (UspSendSpeechContext a) =
        usp_calls a @
        (if (dgiJson \<noteq> [] \<or> intentJson \<noteq> []) \<and> live
         then [SendMessage ''speech.context'' contextJson] else []) \<and>
      m_expectIntentResponse (UspSendSpeechContext a) = (intentJson \<noteq> [])\<close>
proof -
  obtain provider ident key where t: "IntentInfo (site a) = (provider, ident, key)"
    by (cases "IntentInfo (site a)") auto
  show ?thesis
    unfolding t Let_def prod.case
    using intentJson_shape [of a provider ident key]
      dgiJson_suppressed [of a "ListenForList (site a)"]
    by (simp only: intentJson_empty_iff [symmetric] GetSpeechContextJson_shape [symmetric]
          GetSpeechContextJson_empty_iff [symmetric] UspSendSpeechContext_effect t fst_conv
          snd_conv Let_def)
       (simp add: UspSendMessage_def call_usp_def)
qed

theorem speech_context_branches_witness:
  \<open>GetBooleanValue (site nodgi_Adapter) CARBON_INTERNAL_USP_NoDGI False \<and>
   GetDgiJsonFromListenForList nodgi_Adapter (ListenForList (site nodgi_Adapter)) = [] \<and>
   usp_calls (UspSendSpeechContext nodgi_Adapter) =
     [SendMessage ''speech.context'' ''{"intent":{"provider":"p","id":"i","key":"k"}}''] \<and>
   m_expectIntentResponse (UspSendSpeechContext nodgi_Adapter)\<close>
proof -
  have s: "IntentInfo (site nodgi_Adapter) = (''p'', ''i'', ''k'')"
    "GetBooleanValue (site nodgi_Adapter) CARBON_INTERNAL_USP_NoDGI False"
    "\<not> GetBooleanValue (site nodgi_Adapter) CARBON_INTERNAL_USP_NoIntentJson False"
    "usp_calls nodgi_Adapter = []" "m_handle nodgi_Adapter \<noteq> None"
    "m_uspState nodgi_Adapter = UspState_Idle"
    by (simp_all add: nodgi_Adapter_def nodgi_Site_def intent_Site_def example_Site_def
        CSpxUspRecoEngineAdapter_def GetBooleanValue_def)
  from speech_context_branches [of nodgi_Adapter] s show ?thesis
    by (auto simp: Let_def)
qed

subsection \<open>The format header\<close>

lemma length_bytes_of_uint32 [simp]: "length (bytes_of_uint32 w) = 4"
  by (simp add: bytes_of_uint32_def)

lemma length_bytes_of_uint16 [simp]: "length (bytes_of_uint16 w) = 2"
  by (simp add: bytes_of_uint16_def)

lemma length_bytes_of_chars [simp]: "length (bytes_of_chars cs) = length cs"
  by (simp add: bytes_of_chars_def)

lemma length_bytes_of_WAVEFORMATEX:
  "length (bytes_of_WAVEFORMATEX f) = 18 + length (extra_bytes f)"
  by (simp add: bytes_of_WAVEFORMATEX_def)

lemma unat_cbFormatChunk:
  "unat (of_nat sizeof_WAVEFORMAT + ucast (cbSize f) :: 32 word) = 14 + unat (cbSize f)"
proof -
  have lt: "unat (cbSize f) < 2 ^ 16"
    using unsigned_less [of "cbSize f"] by simp
  have u: "unat (ucast (cbSize f) :: 32 word) = unat (cbSize f)"
    using lt by (simp add: unsigned_ucast_eq take_bit_nat_eq_self)
  have "unat (14 :: 32 word) + unat (ucast (cbSize f) :: 32 word) < 2 ^ LENGTH(32)"
    using lt u by simp
  then have "unat (14 + ucast (cbSize f) :: 32 word) =
             unat (14 :: 32 word) + unat (ucast (cbSize f) :: 32 word)"
    by (simp only: unat_add_lem)
  then show ?thesis
    using u by (simp add: sizeof_WAVEFORMAT_def)
qed

lemma split_uint32:
  fixes n :: nat
  assumes "n < 2 ^ 32"
  shows "n = n mod 256 + 256 * (n div 256 mod 256) + 65536 * (n div 65536 mod 256) +
             16777216 * (n div 16777216 mod 256)"
proof -
  define a where "a = n div 256"
  define b where "b = a div 256"
  define c where "c = b div 256"
  have d2: "n div 65536 = b" and d3: "n div 16777216 = c"
    by (simp_all add: a_def b_def c_def div_mult2_eq [symmetric])
  have small: "c mod 256 = c"
    using assms by (simp add: a_def b_def c_def div_mult2_eq [symmetric])
  have s1: "n = n mod 256 + 256 * a" by (simp add: a_def)
  have s2: "a = a mod 256 + 256 * b" by (simp add: b_def)
  have s3: "b = b mod 256 + 256 * c" by (simp add: c_def)
  have "n = n mod 256 + 256 * (a mod 256) + 65536 * (b mod 256) + 16777216 * (c mod 256)"
    using s1 s2 s3 small by linarith
  then show ?thesis
    by (simp only: d2 d3 a_def [symmetric])
qed

text \<open>The four bytes of a number are its base-256 digits, least significant first.\<close>

lemma bytes_of_uint32_little_endian:
  assumes "bytes_of_uint32 w = [b0, b1, b2, b3]"
  shows "unat w = unat b0 + 2 ^ 8 * unat b1 + 2 ^ 16 * unat b2 + 2 ^ 24 * unat b3"
proof -
  have b: "b0 = ucast w" "b1 = ucast (drop_bit 8 w)" "b2 = ucast (drop_bit 16 w)"
    "b3 = ucast (drop_bit 24 w)"
    using assms by (simp_all add: bytes_of_uint32_def)
  have lt: "unat w < 2 ^ 32"
    using unsigned_less [of w] by simp
  have e: "unat (ucast w :: 8 word) = unat w mod 256"
    "unat (ucast (drop_bit 8 w) :: 8 word) = unat w div 256 mod 256"
    "unat (ucast (drop_bit 16 w) :: 8 word) = unat w div 65536 mod 256"
    "unat (ucast (drop_bit 24 w) :: 8 word) = unat w div 16777216 mod 256"
    by (simp_all only: unsigned_ucast_eq unat_drop_bit_eq)
       (simp_all add: take_bit_eq_mod drop_bit_eq_div)
  have p: "(2::nat) ^ 8 = 256" "(2::nat) ^ 16 = 65536" "(2::nat) ^ 24 = 16777216"
    by simp_all
  show ?thesis
    unfolding b e p by (rule split_uint32 [OF lt])
qed

text \<open>
  Writes that follow each other through the advancing pointer fill the buffer with the
  concatenation of what was written.
\<close>

lemma writes_in_sequence:
  "length pre + length (concat srcs) \<le> length B \<Longrightarrow>
   foldl (\<lambda>bp src. (memcpy_at (fst bp) (snd bp) src, snd bp + length src))
     (pre @ drop (length pre) B, length pre) srcs =
   ((pre @ concat srcs) @ drop (length pre + length (concat srcs)) B,
    length pre + length (concat srcs))"
proof (induction srcs arbitrary: pre)
  case Nil
  then show ?case by simp
next
  case (Cons src srcs)
  have "memcpy_at (pre @ drop (length pre) B) (length pre) src =
        (pre @ src) @ drop (length (pre @ src)) B"
    by (simp add: memcpy_at_def add.commute)
  moreover have "length (pre @ src) + length (concat srcs) \<le> length B"
    using Cons.prems by simp
  ultimately show ?case
    using Cons.IH [of "pre @ src"] by (simp add: add.assoc)
qed

lemma UspWriteFormat_header_layout:
  assumes alloc: "\<And>n. length (alloc n) = n"
    and wf: "length (extra_bytes f) = unat (cbSize f)"
  shows "UspWriteFormat_header alloc f =
           ((bytes_of_chars ''RIFF'' @ bytes_of_uint32 0 @ bytes_of_chars ''WAVE'' @
             bytes_of_chars ''fmt '' @ bytes_of_uint32 (14 + ucast (cbSize f)) @
             take (14 + unat (cbSize f)) (bytes_of_WAVEFORMATEX f) @
             bytes_of_chars ''data'' @ bytes_of_uint32 0,
             42 + unat (cbSize f)),
            42 + unat (cbSize f))"
proof -
  let ?n = "42 + unat (cbSize f)"
  let ?srcs = "[bytes_of_chars ''RIFF'', bytes_of_uint32 0, bytes_of_chars ''WAVE'',
     bytes_of_chars ''fmt '', bytes_of_uint32 (14 + ucast (cbSize f)),
     take (14 + unat (cbSize f)) (bytes_of_WAVEFORMATEX f),
     bytes_of_chars ''data'', bytes_of_uint32 0]"
  have len: "length (concat ?srcs) = ?n"
    by (simp add: length_bytes_of_WAVEFORMATEX wf)
  have four: "Suc (Suc (Suc (Suc 0))) = 4"
    by simp
  have unfolded: "UspWriteFormat_header alloc f =
      (foldl (\<lambda>bp src. (memcpy_at (fst bp) (snd bp) src, snd bp + length src))
         (alloc ?n, 0) ?srcs, ?n)"
    using unat_cbFormatChunk [of f]
    by (simp add: UspWriteFormat_header_def Let_def FormatBufferWriteChars_def
        FormatBufferWriteNumber_def FormatBufferWriteBytes_def sizeof_WAVEFORMAT_def
        length_bytes_of_WAVEFORMATEX wf four)
  have "foldl (\<lambda>bp src. (memcpy_at (fst bp) (snd bp) src, snd bp + length src))
         ([] @ drop (length ([] :: byte list)) (alloc ?n), length ([] :: byte list)) ?srcs =
        (([] @ concat ?srcs) @ drop (length ([] :: byte list) + length (concat ?srcs)) (alloc ?n),
         length ([] :: byte list) + length (concat ?srcs))"
    by (rule writes_in_sequence) (simp only: len alloc list.size add_0 le_refl)
  then have F: "foldl (\<lambda>bp src. (memcpy_at (fst bp) (snd bp) src, snd bp + length src))
         (alloc ?n, 0) ?srcs = (concat ?srcs, ?n)"
    by (simp only: len alloc append_Nil list.size add_0 drop_0 drop_all le_refl append_Nil2)
  have c: "concat ?srcs =
             bytes_of_chars ''RIFF'' @ bytes_of_uint32 0 @ bytes_of_chars ''WAVE'' @
             bytes_of_chars ''fmt '' @ bytes_of_uint32 (14 + ucast (cbSize f)) @
             take (14 + unat (cbSize f)) (bytes_of_WAVEFORMATEX f) @
             bytes_of_chars ''data'' @ bytes_of_uint32 0"
    by simp
  show ?thesis
    by (simp only: unfolded F c)
qed

text \<open>
  Claim C8. For a well-formed format descriptor with \<open>extra = cbSize\<close> extra bytes, and
  whatever the new buffer holds, \<^verbatim>\<open>UspWriteFormat\<close> builds the byte sequence
  \<open>"RIFF" u32(0) "WAVE" "fmt " u32(14 + extra) <format-bytes> "data" u32(0)\<close>, where the
  format bytes are the first \<open>14 + extra\<close> bytes of the descriptor in memory; the write
  pointer ends \<open>12 + 8 + (14 + extra) + 8\<close> bytes after the start, which is the length of the
  sequence; \<open>u32(0)\<close> is four zero bytes and the bytes of any \<open>u32\<close> are its base-256
  digits from the least significant one; and the sequence goes to the uploader in one
  \<^verbatim>\<open>UspWrite\<close>.
\<close>

theorem UspWriteFormat_RIFF_header:
  assumes "\<forall>n. length (alloc n) = n" and "length (extra_bytes f) = unat (cbSize f)"
  shows "fst (fst (UspWriteFormat_header alloc f)) =
           bytes_of_chars ''RIFF'' @ bytes_of_uint32 0 @ bytes_of_chars ''WAVE'' @
           bytes_of_chars ''fmt '' @ bytes_of_uint32 (14 + ucast (cbSize f)) @
           take (14 + unat (cbSize f)) (bytes_of_WAVEFORMATEX f) @
           bytes_of_chars ''data'' @ bytes_of_uint32 0 \<and>
         length (fst (fst (UspWriteFormat_header alloc f))) = 12 + 8 + (14 + unat (cbSize f)) + 8 \<and>
         snd (fst (UspWriteFormat_header alloc f)) = 12 + 8 + (14 + unat (cbSize f)) + 8 \<and>
         length (take (14 + unat (cbSize f)) (bytes_of_WAVEFORMATEX f)) = 14 + unat (cbSize f) \<and>
         unat (14 + ucast (cbSize f) :: 32 word) = 14 + unat (cbSize f) \<and>
         bytes_of_uint32 0 = [0, 0, 0, 0] \<and>
         (\<forall>w b0 b1 b2 b3. bytes_of_uint32 w = [b0, b1, b2, b3] \<longrightarrow>
            unat w = unat b0 + 2 ^ 8 * unat b1 + 2 ^ 16 * unat b2 + 2 ^ 24 * unat b3) \<and>
         UspWriteFormat f a =
           UspWrite (fst (fst (UspWriteFormat_header new_uint8_array f)))
             (12 + 8 + (14 + unat (cbSize f)) + 8) a"
proof -
  have h: "UspWriteFormat_header alloc f =
           ((bytes_of_chars ''RIFF'' @ bytes_of_uint32 0 @ bytes_of_chars ''WAVE'' @
             bytes_of_chars ''fmt '' @ bytes_of_uint32 (14 + ucast (cbSize f)) @
             take (14 + unat (cbSize f)) (bytes_of_WAVEFORMATEX f) @
             bytes_of_chars ''data'' @ bytes_of_uint32 0,
             42 + unat (cbSize f)),
            42 + unat (cbSize f))"
    using assms by (intro UspWriteFormat_header_layout) simp_all
  have n: "snd (UspWriteFormat_header new_uint8_array f) = 42 + unat (cbSize f)"
    using assms(2) by (subst UspWriteFormat_header_layout) (simp_all add: new_uint8_array_def)
  have l: "length (take (14 + unat (cbSize f)) (bytes_of_WAVEFORMATEX f)) = 14 + unat (cbSize f)"
    using assms(2) by (simp add: length_bytes_of_WAVEFORMATEX)
  have z: "bytes_of_uint32 0 = [0, 0, 0, 0]"
    by (simp add: bytes_of_uint32_def)
  have u: "unat (14 + ucast (cbSize f) :: 32 word) = 14 + unat (cbSize f)"
    using unat_cbFormatChunk [of f] by (simp add: sizeof_WAVEFORMAT_def)
  have w: "UspWriteFormat f a =
           UspWrite (fst (fst (UspWriteFormat_header new_uint8_array f)))
             (12 + 8 + (14 + unat (cbSize f)) + 8) a"
    by (simp add: UspWriteFormat_def Let_def n)
  show ?thesis
    using l u z w bytes_of_uint32_little_endian by (simp add: h)
qed

theorem UspWriteFormat_RIFF_header_witness:
  "(\<forall>n. length (new_uint8_array n) = n) \<and> length (extra_bytes pcm16) = unat (cbSize pcm16) \<and>
   fst (fst (UspWriteFormat_header new_uint8_array pcm16)) =
     [82, 73, 70, 70, 0, 0, 0, 0, 87, 65, 86, 69, 102, 109, 116, 32, 14, 0, 0, 0,
      1, 0, 1, 0, 128, 62, 0, 0, 0, 125, 0, 0, 2, 0, 100, 97, 116, 97, 0, 0, 0, 0] \<and>
   snd (fst (UspWriteFormat_header new_uint8_array pcm16)) = 42"
proof -
  have a: "\<forall>n. length (new_uint8_array n) = n"
    by (simp add: new_uint8_array_def)
  have b: "length (extra_bytes pcm16) = unat (cbSize pcm16)"
    by (simp add: pcm16_def)
  from UspWriteFormat_RIFF_header [OF a b] a b show ?thesis
    by (simp add: pcm16_def bytes_of_chars_def bytes_of_uint32_def bytes_of_uint16_def
        bytes_of_WAVEFORMATEX_def)
qed

subsection \<open>The chunking uploader\<close>

text \<open>
  One write that crosses one frame boundary, into an uploader with no frame buffer yet, and
  a flush: the first frame holds the first \<open>n\<close> bytes of the write, and the flush frame
  holds the first \<open>length d - n\<close> bytes of the write again, for every frame size \<open>n\<close>.
\<close>

lemma UspWrite_Buffered_across_frame:
  assumes live: "m_uspState a \<noteq> UspState_Terminating" "m_uspState a \<noteq> UspState_Zombie"
      "m_handle a \<noteq> None"
    and fresh: "m_buffer a = None"
    and n: "m_servicePreferedBufferSizeSendingNow a = n" "0 < n"
    and len: "n < length d" "length d < 2 * n"
  shows "UspWrite_Buffered d (length d) a =
           Some (a\<lparr>m_buffer := Some (take (length d - n) d @ drop (length d - n) (take n d)),
                   m_bytesInBuffer := n,
                   m_ptrIntoBuffer := Some (length d - n),
                   m_bytesLeftInBuffer := 2 * n - length d,
                   usp_calls := usp_calls a @ [WriteAudio (take n d)]\<rparr>)"
proof -
  have m: "min (length d) n = n" "min (length d - n) n = length d - n" "min n (length d) = n"
    using len by simp_all
  have ne: "d \<noteq> []" "length d - n \<noteq> 0"
    using len by auto
  show ?thesis
    unfolding UspWrite_Buffered_def
    using live fresh n len ne
    apply (simp add: Let_def)
    apply (subst UspWrite_Buffered_loop.simps)
    apply (simp add: Let_def SpxAllocSharedUint8Buffer_def buffer_get_def memcpy_at_def m)
    apply (subst UspWrite_Buffered_loop.simps)
    apply (simp add: Let_def buffer_get_def memcpy_at_def UspWrite_Actual_def call_usp_def m)
    apply (subst UspWrite_Buffered_loop.simps)
    apply (simp add: Let_def)
    done
qed

lemma write_across_frame_then_flush:
  assumes live: "m_uspState a \<noteq> UspState_Terminating" "m_uspState a \<noteq> UspState_Zombie"
      "m_handle a \<noteq> None"
    and buffered: "m_fUseBufferedImplementation a"
    and fresh: "m_buffer a = None"
    and n: "m_servicePreferedBufferSizeSendingNow a = n" "0 < n"
    and len: "n < length d" "length d < 2 * n"
  shows "map_option usp_calls (Option.bind (UspWrite d (length d) a) UspWrite_Flush) =
           Some (usp_calls a @
                 [WriteAudio (take n d), WriteAudio (take (length d - n) d), FlushAudio])"
proof -
  let ?a1 = "a\<lparr>m_buffer := Some (take (length d - n) d @ drop (length d - n) (take n d)),
                 m_bytesInBuffer := n,
                 m_ptrIntoBuffer := Some (length d - n),
                 m_bytesLeftInBuffer := 2 * n - length d,
                 usp_calls := usp_calls a @ [WriteAudio (take n d)]\<rparr>"
  have k: "n - (2 * n - length d) = length d - n"
    using len by simp
  have w: "UspWrite d (length d) a = Some ?a1"
    using buffered n UspWrite_Buffered_across_frame [OF live fresh n len]
    by (simp add: UspWrite_def)
  have f: "map_option usp_calls (UspWrite_Flush ?a1) =
             Some (usp_calls a @
                   [WriteAudio (take n d), WriteAudio (take (length d - n) d), FlushAudio])"
    using live
    by (simp add: UspWrite_Flush_def UspWrite_Buffered_def UspWrite_Buffered_loop_flush Let_def
        UspWrite_Actual_def call_usp_def buffer_get_def k)
  show ?thesis
    unfolding w using f by simp
qed

text \<open>
  Claim C3 says that the frames emitted for a sequence of writes and a flush concatenate to
  the bytes written. The loop of \<^verbatim>\<open>UspWrite_Buffered\<close> advances \<^verbatim>\<open>m_ptrIntoBuffer\<close>
  and decreases \<^verbatim>\<open>bytesToWrite\<close>, but never advances \<^verbatim>\<open>buffer\<close>: a write that does not
  fit into what is left of the frame is continued from its own first byte. With a frame of 32
  bytes (16 kHz, block align 2, one preferred millisecond), a write of the 40 bytes \<open>1\<close> to
  \<open>40\<close> and a flush, the transport receives the header, the frame \<open>1\<close> to \<open>32\<close> and then
  the bytes \<open>1\<close> to \<open>8\<close> where \<open>33\<close> to \<open>40\<close> were written.
\<close>

theorem chunked_upload_repeats_bytes:
  "audio40 =
     [1, 2, 3, 4, 5, 6, 7, 8, 9, 10, 11, 12, 13, 14, 15, 16, 17, 18, 19, 20, 21, 22, 23, 24,
      25, 26, 27, 28, 29, 30, 31, 32, 33, 34, 35, 36, 37, 38, 39, 40] \<and>
   map_option (audio_writes \<circ> usp_calls)
     (run [Stim_SetFormat (Some pcm16), Stim_ProcessAudio audio40 40, Stim_ProcessAudio [] 0]
        intent_Adapter) =
     Some [[82, 73, 70, 70, 0, 0, 0, 0, 87, 65, 86, 69, 102, 109, 116, 32, 14, 0, 0, 0,
            1, 0, 1, 0, 128, 62, 0, 0, 0, 125, 0, 0, 2, 0, 100, 97, 116, 97, 0, 0, 0, 0],
           [1, 2, 3, 4, 5, 6, 7, 8, 9, 10, 11, 12, 13, 14, 15, 16, 17, 18, 19, 20, 21, 22, 23,
            24, 25, 26, 27, 28, 29, 30, 31, 32],
           [1, 2, 3, 4, 5, 6, 7, 8]]"
  by code_simp

subsection \<open>Reading the \<^verbatim>\<open>speech.context\<close> payload back\<close>

text \<open>The closed forms of the builder's loops and of the classification.\<close>

lemma fold_append_item:
  "fold append_item items (acc, c) =
     (acc @ (if c then items_tail items else items_json items), c \<or> items \<noteq> [])"
  by (induction items arbitrary: acc c) (auto simp: append_item_def)

lemma fold_append_grammar:
  "fold append_grammar grammars (acc, c) =
     (acc @ (if c then grammars_tail grammars else grammars_json grammars), c \<or> grammars \<noteq> [])"
  by (induction grammars arbitrary: acc c) (auto simp: append_grammar_def)

lemma dgiJson_of_closed:
  \<open>dgiJson_of grammars genericItems =
     (if grammars = [] \<and> genericItems = [] then []
      else ''{'' @
           (if genericItems \<noteq> []
            then ''"Groups": [{"Type":"Generic","Items":['' @ items_json genericItems @ '']}]''
            else []) @
           (if grammars \<noteq> []
            then (if genericItems \<noteq> [] then '','' else []) @
                 ''"ReferenceGrammars": ['' @ grammars_json grammars @ '']''
            else []) @
           ''}'')\<close>
  by (simp add: dgiJson_of_def Let_def fold_append_item fold_append_grammar)

lemma string_find_None_iff: "(string_find c s = None) = (c \<notin> set s)"
  by (induction s) auto

lemma is_reference_grammar_iff:
  "is_reference_grammar listenFor =
     (length listenFor > 3 \<and> hd listenFor = CHR ''{'' \<and> last listenFor = CHR ''}'' \<and>
      CHR '':'' \<in> set listenFor)"
proof (cases "listenFor = []")
  case True
  then show ?thesis by (simp add: is_reference_grammar_def)
next
  case False
  then show ?thesis
    by (simp add: is_reference_grammar_def string_find_None_iff hd_conv_nth last_conv_nth)
qed

text \<open>
  Under the test of the classification loop the colon lies strictly between the braces, so
  the search in \<^verbatim>\<open>ref\<close> finds it and \<^verbatim>\<open>replace\<close> does not throw.
\<close>

lemma is_reference_grammar_find:
  assumes "is_reference_grammar listenFor"
  shows "string_find CHR '':'' (substr listenFor 1 (length listenFor - 2)) \<noteq> None"
proof -
  let ?n = "length listenFor"
  from assms have n: "?n > 3" and h: "listenFor ! 0 = CHR ''{''"
    and l: "listenFor ! (?n - 1) = CHR ''}''" and c: "CHR '':'' \<in> set listenFor"
    by (simp_all add: is_reference_grammar_def string_find_None_iff)
  from c obtain j where j: "j < ?n" "listenFor ! j = CHR '':''"
    by (auto simp: in_set_conv_nth)
  have "j \<noteq> 0"
  proof
    assume "j = 0"
    with j h show False by simp
  qed
  moreover have "j \<noteq> ?n - 1"
  proof
    assume "j = ?n - 1"
    with j l show False by simp
  qed
  ultimately have b: "j - 1 < ?n - 2" "1 + (j - 1) = j"
    using j n by auto
  then have "substr listenFor 1 (?n - 2) ! (j - 1) = CHR '':''"
    using j n by (simp add: substr_def)
  moreover have "j - 1 < length (substr listenFor 1 (?n - 2))"
    using b n by (simp add: substr_def)
  ultimately have "CHR '':'' \<in> set (substr listenFor 1 (?n - 2))"
    by (metis nth_mem)
  then show ?thesis
    by (simp add: string_find_None_iff)
qed

lemma classify_fold:
  "fold classify_listenFor listenForList (grammars, genericItems) =
     (grammars @ map (\<lambda>s. replace_colon (substr s 1 (length s - 2)))
                   (filter is_reference_grammar listenForList),
      genericItems @ filter (\<lambda>s. \<not> is_reference_grammar s) listenForList)"
  by (induction listenForList arbitrary: grammars genericItems)
     (simp_all add: classify_listenFor_def)

lemma classify_listenForList_closed:
  "classify_listenForList listenForList =
     (map (\<lambda>s. replace_colon (substr s 1 (length s - 2)))
        (filter is_reference_grammar listenForList),
      filter (\<lambda>s. \<not> is_reference_grammar s) listenForList)"
  by (simp add: classify_listenForList_def classify_fold)

lemma dgiJson_of_body:
  "dgiJson_of grammars genericItems =
     (if grammars = [] \<and> genericItems = [] then []
      else ''{'' @ dgi_body grammars genericItems @ ''}'')"
  by (simp add: dgiJson_of_closed dgi_body_def grammars_part_def)

lemma speech_context_payload_closed:
  assumes "readable_inputs a"
  shows \<open>speech_context_payload a =
     (case payload_inputs a of
        (grammars, genericItems, intent) \<Rightarrow>
          if grammars = [] \<and> genericItems = []
          then (if intent = None then [] else ''{'' @ intent_part [] intent @ ''}'')
          else ''{"dgi":{'' @ dgi_body grammars genericItems @ ''}'' @ intent_part '','' intent @ ''}'')\<close>
proof -
  obtain p i k where t: "IntentInfo (site a) = (p, i, k)"
    by (cases "IntentInfo (site a)") auto
  show ?thesis
    using assms
    by (simp add: speech_context_payload_def payload_inputs_def readable_inputs_def Let_def t
        GetDgiJsonFromListenForList_def GetLanguageUnderstandingJsonFromIntentInfo_def
        GetSpeechContextJson_def dgiJson_of_body emitted_IntentInfo_def intent_part_def
        intent_object_def)
qed

text \<open>
  The tokens of the payload: a plain string between double quotes is one string token, and
  each piece of the payload gives the tokens named after it.
\<close>

lemma json_plain_Cons [simp]:
  "json_plain (c # s) = (c \<noteq> CHR 0x22 \<and> c \<noteq> CHR 0x5C \<and> (32::nat) \<le> of_char c \<and> json_plain s)"
  by (simp add: json_plain_def)

lemma json_tokens_literal:
  "json_plain x \<Longrightarrow>
   json_tokens (Some lit) (x @ CHR 0x22 # rest) =
     map_option ((#) (Str (lit @ x))) (json_tokens None rest)"
  by (induction x arbitrary: lit) (auto simp: not_less [symmetric])

lemma json_tokens_items_tail:
  "list_all json_plain items \<Longrightarrow>
   json_tokens None (items_tail items @ rest) =
     map_option ((@) (items_tail_tokens items)) (json_tokens None rest)"
proof (induction items)
  case Nil
  then show ?case by (simp add: option.map_ident)
next
  case (Cons item items)
  then show ?case
    by (simp add: json_space_def json_punctuation_def json_tokens_literal option.map_comp comp_def)
qed


lemmas json_step = json_space_def json_punctuation_def json_tokens_literal option.map_comp
  comp_def option.map_ident

lemma json_tokens_items:
  "list_all json_plain items \<Longrightarrow>
   json_tokens None (items_json items @ rest) =
     map_option ((@) (items_tokens items)) (json_tokens None rest)"
  by (cases items; cases "json_tokens None rest") (simp_all add: json_step json_tokens_items_tail)

lemma json_tokens_grammars_tail:
  "list_all json_plain grammars \<Longrightarrow>
   json_tokens None (grammars_tail grammars @ rest) =
     map_option ((@) (grammars_tail_tokens grammars)) (json_tokens None rest)"
  by (induction grammars; cases "json_tokens None rest") (simp_all add: json_step)

lemma json_tokens_grammars:
  "list_all json_plain grammars \<Longrightarrow>
   json_tokens None (grammars_json grammars @ rest) =
     map_option ((@) (grammars_tokens grammars)) (json_tokens None rest)"
  by (cases grammars; cases "json_tokens None rest")
     (simp_all add: json_step json_tokens_grammars_tail)

lemma json_tokens_grammars_part:
  "list_all json_plain grammars \<Longrightarrow>
   json_tokens None (grammars_part [] grammars @ rest) =
     map_option ((@) (grammars_part_tokens [] grammars)) (json_tokens None rest) \<and>
   json_tokens None (grammars_part '','' grammars @ rest) =
     map_option ((@) (grammars_part_tokens [Comma] grammars)) (json_tokens None rest)"
  by (cases "json_tokens None rest")
     (simp_all add: grammars_part_def grammars_part_tokens_def json_step json_tokens_grammars)

lemma json_tokens_dgi_body:
  "list_all json_plain grammars \<Longrightarrow> list_all json_plain items \<Longrightarrow>
   json_tokens None (dgi_body grammars items @ rest) =
     map_option ((@) (dgi_body_tokens grammars items)) (json_tokens None rest)"
  by (cases "json_tokens None rest")
     (simp_all add: dgi_body_def dgi_body_tokens_def json_step json_tokens_items
        json_tokens_grammars_part)

lemma json_tokens_intent_object:
  "json_plain provider \<Longrightarrow> json_plain ident \<Longrightarrow> json_plain key \<Longrightarrow>
   json_tokens None (intent_object provider ident key @ rest) =
     map_option ((@) (intent_object_tokens provider ident key)) (json_tokens None rest)"
  by (cases "json_tokens None rest")
     (simp_all add: intent_object_def intent_object_tokens_def json_step)

lemma json_tokens_intent_part:
  "(case intent of None \<Rightarrow> True
    | Some (provider, ident, key) \<Rightarrow> json_plain provider \<and> json_plain ident \<and> json_plain key) \<Longrightarrow>
   json_tokens None (intent_part [] intent @ rest) =
     map_option ((@) (intent_part_tokens [] intent)) (json_tokens None rest) \<and>
   json_tokens None (intent_part '','' intent @ rest) =
     map_option ((@) (intent_part_tokens [Comma] intent)) (json_tokens None rest)"
  by (cases intent; cases "json_tokens None rest")
     (auto simp: intent_part_def intent_part_tokens_def json_step json_tokens_intent_object)

lemma read_items_tail_tokens:
  "read_items_tail (items_tail_tokens items @ RBracket # r) = Some (items, r)"
  by (induction items) simp_all

lemma read_items_tokens:
  "items \<noteq> [] \<Longrightarrow> read_items (items_tokens items @ RBracket # r) = Some (items, r)"
  by (cases items) (simp_all add: read_items_tail_tokens)

lemma read_grammars_tail_tokens:
  "read_grammars_tail (grammars_tail_tokens grammars @ RBracket # r) = Some (grammars, r)"
  by (induction grammars) simp_all

lemma read_grammars_tokens:
  "grammars \<noteq> [] \<Longrightarrow> read_grammars (grammars_tokens grammars @ RBracket # r) = Some (grammars, r)"
  by (cases grammars) (simp_all add: read_grammars_tail_tokens)

lemma read_dgi_tokens:
  assumes "grammars \<noteq> [] \<or> items \<noteq> []"
  shows "read_dgi (dgi_body_tokens grammars items @ RBrace # r) = Some (grammars, items, r)"
proof (cases "items = []")
  case True
  with assms have g: "grammars \<noteq> []" by simp
  then obtain x xs where "grammars = x # xs" by (cases grammars) auto
  with True show ?thesis
    by (simp add: read_dgi_def dgi_body_tokens_def grammars_part_tokens_def read_Groups_def
        read_ReferenceGrammars_def read_grammars_tail_tokens)
next
  case False
  then show ?thesis
    by (cases "grammars = []")
       (simp_all add: read_dgi_def dgi_body_tokens_def grammars_part_tokens_def read_Groups_def
          read_ReferenceGrammars_def read_items_tokens read_grammars_tokens)
qed

lemma read_intent_tokens:
  "read_intent (intent_object_tokens provider ident key @ r) = Some ((provider, ident, key), r)"
  by (simp add: read_intent_def intent_object_tokens_def)

lemma read_context_tokens:
  assumes "grammars \<noteq> [] \<or> items \<noteq> [] \<or> intent \<noteq> None"
  shows "read_context
           (if grammars = [] \<and> items = []
            then LBrace # intent_part_tokens [] intent @ [RBrace]
            else [LBrace, Str ''dgi'', Colon, LBrace] @ dgi_body_tokens grammars items @
                 RBrace # intent_part_tokens [Comma] intent @ [RBrace]) =
         Some (grammars, items, intent)"
proof (cases "grammars = [] \<and> items = []")
  case True
  with assms obtain p i k where "intent = Some (p, i, k)" by (cases intent) auto
  with True show ?thesis
    by (simp add: read_context_def intent_part_tokens_def read_intent_member_def
        read_intent_tokens intent_object_tokens_def read_intent_def)
next
  case False
  then have d: "grammars \<noteq> [] \<or> items \<noteq> []" by simp
  show ?thesis
  proof (cases intent)
    case None
    with False show ?thesis
      by (auto simp: read_context_def read_dgi_tokens [OF d] intent_part_tokens_def)
  next
    case (Some t)
    obtain p i k where "t = (p, i, k)" by (cases t) auto
    with Some False show ?thesis
      by (auto simp: read_context_def read_dgi_tokens [OF d] intent_part_tokens_def
          read_intent_member_def read_intent_tokens)
  qed
qed

text \<open>
  The classification keeps the strings plain: a reference grammar is a part of its entry with
  one colon turned into a slash.
\<close>

lemma json_plain_replace_colon:
  assumes "json_plain s"
  shows "json_plain (replace_colon (substr s pos n))"
proof -
  have sub: "set (substr s pos n) \<subseteq> set s"
    unfolding substr_def by (meson set_take_subset set_drop_subset subset_trans)
  have "set (replace_colon r) \<subseteq> set r \<union> {CHR ''/''}" for r
    by (auto simp: replace_colon_def split: option.splits dest: in_set_takeD in_set_dropD)
  then have "set (replace_colon (substr s pos n)) \<subseteq> set s \<union> {CHR ''/''}"
    using sub by blast
  moreover have "json_plain t" if "set t \<subseteq> set s \<union> {CHR ''/''}" for t
  proof -
    have "c \<noteq> CHR 0x22 \<and> c \<noteq> CHR 0x5C \<and> (32::nat) \<le> of_char c" if "c \<in> set t" for c
    proof (cases "c = CHR ''/''")
      case True
      then show ?thesis by simp
    next
      case False
      with that \<open>set t \<subseteq> set s \<union> {CHR ''/''}\<close> have "c \<in> set s" by blast
      with assms show ?thesis by (simp add: json_plain_def list_all_iff)
    qed
    then show ?thesis by (simp add: json_plain_def list_all_iff)
  qed
  ultimately show ?thesis
    by blast
qed

lemma classify_json_plain:
  assumes "list_all json_plain listenForList"
  shows "list_all json_plain (fst (classify_listenForList listenForList)) \<and>
         list_all json_plain (snd (classify_listenForList listenForList))"
  using assms by (auto simp: classify_listenForList_closed json_plain_replace_colon list_all_iff)

lemma payload_inputs_json_plain:
  assumes "readable_inputs a" "payload_inputs a = (g, i, t)"
  shows "list_all json_plain g \<and> list_all json_plain i \<and>
         (case t of None \<Rightarrow> True
          | Some (provider, ident, key) \<Rightarrow> json_plain provider \<and> json_plain ident \<and> json_plain key)"
proof -
  have l: "list_all json_plain (ListenForList (site a))"
    using assms(1) by (simp add: readable_inputs_def)
  from classify_json_plain [OF l] assms show ?thesis
    by (auto simp: payload_inputs_def readable_inputs_def emitted_IntentInfo_def
        split: prod.splits if_splits)
qed

lemma json_tokens_context:
  assumes g: "list_all json_plain g" and i: "list_all json_plain i"
    and t: "case t of None \<Rightarrow> True
            | Some (provider, ident, key) \<Rightarrow> json_plain provider \<and> json_plain ident \<and> json_plain key"
  shows \<open>json_tokens None (''{'' @ intent_part [] t @ ''}'') =
           Some (LBrace # intent_part_tokens [] t @ [RBrace])\<close>
    and \<open>json_tokens None (''{"dgi":{'' @ dgi_body g i @ ''}'' @ intent_part '','' t @ ''}'') =
           Some ([LBrace, Str ''dgi'', Colon, LBrace] @ dgi_body_tokens g i @
                 RBrace # intent_part_tokens [Comma] t @ [RBrace])\<close>
proof -
  note it = json_tokens_intent_part [OF t]
  show \<open>json_tokens None (''{'' @ intent_part [] t @ ''}'') =
           Some (LBrace # intent_part_tokens [] t @ [RBrace])\<close>
    by (simp add: json_step it)
  show \<open>json_tokens None (''{"dgi":{'' @ dgi_body g i @ ''}'' @ intent_part '','' t @ ''}'') =
           Some ([LBrace, Str ''dgi'', Colon, LBrace] @ dgi_body_tokens g i @
                 RBrace # intent_part_tokens [Comma] t @ [RBrace])\<close>
    using json_tokens_literal [of "[]" "[]"]
    by (simp add: json_step it json_tokens_dgi_body [OF g i])
qed

lemma parse_speech_context_payload:
  assumes "readable_inputs a"
  shows "parse_speech_context (speech_context_payload a) = Some (payload_inputs a)"
proof -
  obtain g i t where p: "payload_inputs a = (g, i, t)"
    by (cases "payload_inputs a") auto
  from payload_inputs_json_plain [OF assms p]
  have pl: "list_all json_plain g" "list_all json_plain i"
    "case t of None \<Rightarrow> True
     | Some (provider, ident, key) \<Rightarrow> json_plain provider \<and> json_plain ident \<and> json_plain key"
    by simp_all
  note tk = json_tokens_context [OF pl]
  show ?thesis
  proof (cases "g = [] \<and> i = [] \<and> t = None")
    case True
    then show ?thesis
      by (simp add: speech_context_payload_closed [OF assms] p parse_speech_context_def)
  next
    case False
    then have n: "g \<noteq> [] \<or> i \<noteq> [] \<or> t \<noteq> None" by blast
    from read_context_tokens [OF n] False show ?thesis
      by (auto simp: speech_context_payload_closed [OF assms] p parse_speech_context_def tk
          simp del: append.simps)
  qed
qed

text \<open>
  The payload is empty, and no message is sent, only when there is nothing to say: no
  grammar, no item and no triple to emit.
\<close>

lemma speech_context_payload_empty_iff:
  assumes "readable_inputs a"
  shows "(speech_context_payload a = []) = (payload_inputs a = ([], [], None))"
proof -
  obtain g i t where p: "payload_inputs a = (g, i, t)"
    by (cases "payload_inputs a") auto
  show ?thesis
    by (auto simp: speech_context_payload_closed [OF assms] p)
qed

text \<open>
  Claim C9 says that for every listen-for list and every intent triple the payload, parsed
  back, gives the same grammars, items and triple. The builder copies the strings between
  double quotes without escaping, and it leaves out a triple that has an empty string. So the
  one item \<^verbatim>\<open>a"},{"Text":"b\<close> gives the payload of the two items \<open>a\<close> and \<open>b\<close>, which
  is read as these two items; the triple \<open>(p, "", k)\<close> gives the empty payload of the empty
  triple, which is read as no triple; and the one item made of a single backslash gives a
  payload whose string literal never ends, which is not read at all. The first two hold for
  every reader, since the payloads of the different inputs are the same.
\<close>

theorem speech_context_round_trip_counterexample:
  "speech_context_payload quoted_item_Adapter = speech_context_payload two_items_Adapter \<and>
   snd (classify_listenForList (ListenForList (site quoted_item_Adapter))) \<noteq>
     snd (classify_listenForList (ListenForList (site two_items_Adapter))) \<and>
   parse_speech_context (speech_context_payload quoted_item_Adapter) =
     Some ([], [''a'', ''b''], None) \<and>
   length (snd (classify_listenForList (ListenForList (site quoted_item_Adapter)))) = 1 \<and>
   speech_context_payload partial_intent_Adapter = speech_context_payload example_Adapter \<and>
   IntentInfo (site partial_intent_Adapter) \<noteq> IntentInfo (site example_Adapter) \<and>
   parse_speech_context (speech_context_payload partial_intent_Adapter) = Some ([], [], None) \<and>
   IntentInfo (site partial_intent_Adapter) = (''p'', [], ''k'') \<and>
   snd (classify_listenForList (ListenForList (site backslash_item_Adapter))) = [[CHR 0x5C]] \<and>
   parse_speech_context (speech_context_payload backslash_item_Adapter) = None"
  by code_simp

text \<open>
  Claim C9, amended. With both suppressors off and no double quote, backslash or control
  character in a listen-for entry or in a string of the intent triple, the payload, parsed
  back, gives the reference grammars, the generic items, and the intent triple when its three
  strings are non-empty (nothing otherwise, as such a triple is not emitted); and the payload
  is empty, with no message sent, only when there is none of the three. The reference
  grammars are the entries that are longer than 3, start with \<open>{\<close>, end with \<open>}\<close> and
  contain a \<open>:\<close>, with the braces stripped and the first \<open>:\<close> replaced by \<open>/\<close>; the generic
  items are the other entries; both in the order of the list.
\<close>

theorem speech_context_round_trip:
  "(\<forall>a. readable_inputs a \<longrightarrow>
        parse_speech_context (speech_context_payload a) = Some (payload_inputs a) \<and>
        (speech_context_payload a = []) = (payload_inputs a = ([], [], None))) \<and>
   (\<forall>listenForList.
      classify_listenForList listenForList =
        (map (\<lambda>s. replace_colon (substr s 1 (length s - 2)))
           (filter is_reference_grammar listenForList),
         filter (\<lambda>s. \<not> is_reference_grammar s) listenForList)) \<and>
   (\<forall>listenFor.
      is_reference_grammar listenFor =
        (length listenFor > 3 \<and> hd listenFor = CHR ''{'' \<and> last listenFor = CHR ''}'' \<and>
         CHR '':'' \<in> set listenFor))"
  using parse_speech_context_payload speech_context_payload_empty_iff
    classify_listenForList_closed is_reference_grammar_iff
  by blast

theorem speech_context_round_trip_witness:
  \<open>readable_inputs listen_Adapter \<and>
   ListenForList (site listen_Adapter) = [''play'', ''{luis:music}''] \<and>
   IntentInfo (site listen_Adapter) = (''p'', ''i'', ''k'') \<and>
   speech_context_payload listen_Adapter =
     ''{"dgi":{"Groups": [{"Type":"Generic","Items":[{"Text":"play"}]}],"ReferenceGrammars": ["luis/music"]},"intent":{"provider":"p","id":"i","key":"k"}}'' \<and>
   parse_speech_context (speech_context_payload listen_Adapter) =
     Some ([''luis/music''], [''play''], Some (''p'', ''i'', ''k'')) \<and>
   is_reference_grammar ''{luis:music}'' \<and> \<not> is_reference_grammar ''play''\<close>
proof -
  have r: "readable_inputs listen_Adapter"
    by code_simp
  have l: "ListenForList (site listen_Adapter) = [''play'', ''{luis:music}'']"
    by code_simp
  have t: "IntentInfo (site listen_Adapter) = (''p'', ''i'', ''k'')"
    by code_simp
  have p: \<open>speech_context_payload listen_Adapter =
    ''{"dgi":{"Groups": [{"Type":"Generic","Items":[{"Text":"play"}]}],"ReferenceGrammars": ["luis/music"]},"intent":{"provider":"p","id":"i","key":"k"}}''\<close>
    by code_simp
  have i: "payload_inputs listen_Adapter = ([''luis/music''], [''play''], Some (''p'', ''i'', ''k''))"
    by code_simp
  have g: "length ''{luis:music}'' > 3 \<and> hd ''{luis:music}'' = CHR ''{'' \<and>
           last ''{luis:music}'' = CHR ''}'' \<and> CHR '':'' \<in> set ''{luis:music}''"
    by simp
  have n: "\<not> length ''play'' > 3 \<or> hd ''play'' \<noteq> CHR ''{''"
    by simp
  from speech_context_round_trip
  have a: "readable_inputs listen_Adapter \<longrightarrow>
           parse_speech_context (speech_context_payload listen_Adapter) =
             Some (payload_inputs listen_Adapter)"
    and c: "\<forall>listenFor.
      is_reference_grammar listenFor =
        (length listenFor > 3 \<and> hd listenFor = CHR ''{'' \<and> last listenFor = CHR ''}'' \<and>
         CHR '':'' \<in> set listenFor)"
    by blast+
  from a r have "parse_speech_context (speech_context_payload listen_Adapter) =
                   Some ([''luis/music''], [''play''], Some (''p'', ''i'', ''k''))"
    by (simp only: i)
  moreover from c g have "is_reference_grammar ''{luis:music}''"
    by blast
  moreover from c n have "\<not> is_reference_grammar ''play''"
    by blast
  ultimately show ?thesis
    using r l t p by blast
qed

end
